theory Spec2Isabelle
  imports Main
begin

section \<open>Table values\<close>

text \<open>
  The three servers of the repository keep pandas DataFrames behind handle tokens.
  A DataFrame is modelled by its ordered column labels and its rows, every row holding
  one cell per column. Cells are integers, strings, the missing-value marker, and the
  floats that pandas makes of integers when a column of integers receives a missing value:
  \<open>FloatV i\<close> is the float \<open>i.0\<close>. Other floating point cells, the row index and the
  declared dtypes are outside the model.
\<close>

datatype val = IntV int | FloatV int | StrV string | NaN

record dataframe =
  columns :: "string list"
  rows :: "val list list"

text \<open>Exceptions that the library calls of the source can raise.\<close>

datatype exn = MergeError string | ValueError string | OtherException string

subsection \<open>The pandas operations the servers call\<close>

text \<open>
  Modelled from the spec: pandas is library code, absent from the repository, and the
  source only calls it. The operations below follow section 4.2 of the specification
  (project to exactly the listed columns, preserving row order; remove the named columns,
  unknown names ignored; append a column of stringified cells joined by the separator;
  remove rows that duplicate an earlier row, keeping the first occurrence) and, for what
  the specification leaves open, the pandas documentation. A label may be carried by
  several columns: \<^verbatim>\<open>df[['city', 'city']]\<close> is such a frame. \<^verbatim>\<open>DataFrame.query\<close>, \<^verbatim>\<open>groupby(...).agg(...)\<close>, the dtype
  names, the renderers, \<^verbatim>\<open>sample\<close> and \<^verbatim>\<open>exec\<close> are not modelled at all: they are
  parameters of the functions that call them.
\<close>

fun col_pos :: "string \<Rightarrow> string list \<Rightarrow> nat" where
  "col_pos c [] = 0"
| "col_pos c (x # xs) = (if x = c then 0 else Suc (col_pos c xs))"

text \<open>
  The positions of the columns that carry a label, and whether several columns carry it.
\<close>

definition positions :: "string \<Rightarrow> string list \<Rightarrow> nat list" where
  "positions c cs = filter (\<lambda>i. cs ! i = c) [0..<length cs]"

definition repeated :: "string \<Rightarrow> dataframe \<Rightarrow> bool" where
  "repeated c df = (1 < length (positions c (columns df)))"

text \<open>\<^verbatim>\<open>c in df\<close> and \<^verbatim>\<open>c in df.columns\<close>.\<close>

definition has_column :: "string \<Rightarrow> dataframe \<Rightarrow> bool" where
  "has_column c df = (c \<in> set (columns df))"

text \<open>\<^verbatim>\<open>len(df)\<close>.\<close>

definition len_df :: "dataframe \<Rightarrow> nat" where
  "len_df df = length (rows df)"

text \<open>\<^verbatim>\<open>df[c]\<close> for a label that one column carries: the cells of that column.\<close>

definition column_values :: "string \<Rightarrow> dataframe \<Rightarrow> val list" where
  "column_values c df = map (\<lambda>r. r ! col_pos c (columns df)) (rows df)"

text \<open>\<^verbatim>\<open>str(v)\<close>, as \<^verbatim>\<open>astype(str)\<close> applies it to every cell.\<close>

fun show_nat :: "nat \<Rightarrow> string" where
  "show_nat n = (if n < 10 then [''0123456789'' ! n]
                 else show_nat (n div 10) @ [''0123456789'' ! (n mod 10)])"

declare show_nat.simps [simp del]

fun py_str :: "val \<Rightarrow> string" where
  "py_str (IntV i) = (if i < 0 then ''-'' @ show_nat (nat (- i)) else show_nat (nat i))"
| "py_str (FloatV i) = (if i < 0 then ''-'' @ show_nat (nat (- i)) else show_nat (nat i)) @ ''.0''"
| "py_str (StrV s) = s"
| "py_str NaN = ''nan''"

definition astype_str :: "val list \<Rightarrow> string list" where
  "astype_str vs = map py_str vs"

text \<open>\<^verbatim>\<open>a + sep + b\<close> on two string columns.\<close>

definition concat_columns :: "string list \<Rightarrow> string \<Rightarrow> string list \<Rightarrow> val list" where
  "concat_columns xs sep ys = map (\<lambda>(a, b). StrV (a @ sep @ b)) (zip xs ys)"

text \<open>
  \<^verbatim>\<open>df[name] = values\<close> for a column of values: every column that carries the label is
  overwritten where it stands, a new label is appended as the last column.
\<close>

definition set_column :: "string \<Rightarrow> val list \<Rightarrow> dataframe \<Rightarrow> dataframe" where
  "set_column name vs df =
     (if name \<in> set (columns df)
      then df\<lparr>rows := map (\<lambda>(r, v). fold (\<lambda>p r'. r'[p := v]) (positions name (columns df)) r)
                            (zip (rows df) vs)\<rparr>
      else df\<lparr>columns := columns df @ [name],
              rows := map (\<lambda>(r, v). r @ [v]) (zip (rows df) vs)\<rparr>)"

text \<open>
  \<^verbatim>\<open>df[new] = df[c1].astype(str) + sep + df[c2].astype(str)\<close> for labels that are
  present. When several columns carry a source label, \<^verbatim>\<open>df[c]\<close> is a frame and not a
  column, and the statement ends in a \<^verbatim>\<open>ValueError\<close>: pandas does not assign a frame
  of several columns to one label. The frame is then as it was.
\<close>

definition combine_series :: "string \<Rightarrow> string \<Rightarrow> string \<Rightarrow> string \<Rightarrow> dataframe \<Rightarrow> exn + dataframe" where
  "combine_series c1 c2 new sep df =
     (if repeated c1 df \<or> repeated c2 df then Inl (ValueError new)
      else Inr (set_column new (concat_columns (astype_str (column_values c1 df)) sep
                                               (astype_str (column_values c2 df))) df))"

text \<open>\<^verbatim>\<open>df.copy()\<close> of a frame held by value.\<close>

definition df_copy :: "dataframe \<Rightarrow> dataframe" where
  "df_copy df = df"

text \<open>
  \<^verbatim>\<open>df[cols]\<close> for a list of labels that are all present: for each listed label in
  turn, every column that carries it, in the order of the frame.
\<close>

definition df_select :: "string list \<Rightarrow> dataframe \<Rightarrow> dataframe" where
  "df_select cols df =
     (let ps = concat (map (\<lambda>c. positions c (columns df)) cols)
      in \<lparr>columns = map (\<lambda>p. columns df ! p) ps,
          rows = map (\<lambda>r. map (\<lambda>p. r ! p) ps) (rows df)\<rparr>)"

text \<open>\<^verbatim>\<open>df.drop(columns=cols, errors='ignore')\<close>.\<close>

definition df_drop :: "string list \<Rightarrow> dataframe \<Rightarrow> dataframe" where
  "df_drop cols df =
     \<lparr>columns = filter (\<lambda>c. c \<notin> set cols) (columns df),
      rows = map (\<lambda>r. map snd (filter (\<lambda>cv. fst cv \<notin> set cols) (zip (columns df) r))) (rows df)\<rparr>"

text \<open>
  \<^verbatim>\<open>df.drop_duplicates()\<close>: a row equal to an earlier row is dropped. A frame without
  columns is returned as it is.
\<close>

fun keep_first :: "'a list \<Rightarrow> 'a list \<Rightarrow> 'a list" where
  "keep_first seen [] = []"
| "keep_first seen (x # xs) =
     (if x \<in> set seen then keep_first seen xs else x # keep_first (x # seen) xs)"

definition drop_duplicates :: "dataframe \<Rightarrow> dataframe" where
  "drop_duplicates df = (if columns df = [] then df else df\<lparr>rows := keep_first [] (rows df)\<rparr>)"

text \<open>\<^verbatim>\<open>df.head(n)\<close> and \<^verbatim>\<open>df.tail(n)\<close> for a positive \<open>n\<close>.\<close>

definition df_head :: "nat \<Rightarrow> dataframe \<Rightarrow> dataframe" where
  "df_head n df = df\<lparr>rows := take n (rows df)\<rparr>"

definition df_tail :: "nat \<Rightarrow> dataframe \<Rightarrow> dataframe" where
  "df_tail n df = df\<lparr>rows := drop (length (rows df) - n) (rows df)\<rparr>"

subsection \<open>pandas.merge on one key column\<close>

text \<open>
  Modelled from the spec: \<^verbatim>\<open>pd.merge(df1, df2, on=c, how=h)\<close> is pandas code, absent from
  the repository. Section 4.2 of the specification gives its meaning: a relational join
  on equality of the named column, which occurs in both inputs and once in the result;
  inner keeps only matching key tuples; left and right preserve all rows of the named side
  and fill the unmatched columns with the missing-value marker; outer preserves all rows
  from both sides. From the pandas documentation come the rest: a label shared by both
  sides besides the key gets the suffixes \<^verbatim>\<open>_x\<close> and \<^verbatim>\<open>_y\<close>; inner and left keep the
  order of the left rows, right keeps the order of the right rows, outer sorts by key; a
  column of integers that receives the missing-value marker becomes a column of floats.
  The merge is refused with an exception for a join kind outside the four, for a key label
  that several columns of one side carry, for a key column of numbers on one side and of
  strings on the other, and when a suffix makes a label equal to an earlier label of the
  same side.
\<close>

definition valid_joins :: "string list" where
  "valid_joins = [''left'', ''right'', ''outer'', ''inner'']"

definition del_at :: "nat \<Rightarrow> 'a list \<Rightarrow> 'a list" where
  "del_at i xs = take i xs @ drop (Suc i) xs"

fun is_int :: "val \<Rightarrow> bool" where
  "is_int (IntV i) = True"
| "is_int v = False"

fun is_str :: "val \<Rightarrow> bool" where
  "is_str (StrV s) = True"
| "is_str v = False"

fun num_of :: "val \<Rightarrow> int option" where
  "num_of (IntV i) = Some i"
| "num_of (FloatV i) = Some i"
| "num_of v = None"

text \<open>
  A key column of numbers holds a number and no string; a key column of strings holds a
  string and no integer.
\<close>

definition numeric_keys :: "val list \<Rightarrow> bool" where
  "numeric_keys ks = (list_ex (\<lambda>v. num_of v \<noteq> None) ks \<and> list_all (\<lambda>v. \<not> is_str v) ks)"

definition string_keys :: "val list \<Rightarrow> bool" where
  "string_keys ks = (list_ex is_str ks \<and> list_all (\<lambda>v. \<not> is_int v) ks)"

definition incompatible_keys :: "val list \<Rightarrow> val list \<Rightarrow> bool" where
  "incompatible_keys lk rk =
     (numeric_keys lk \<and> string_keys rk \<or> string_keys lk \<and> numeric_keys rk)"

text \<open>Two key cells match when they are equal; an integer matches the float of the same value.\<close>

definition same_key :: "val \<Rightarrow> val \<Rightarrow> bool" where
  "same_key a b = (a = b \<or> (num_of a \<noteq> None \<and> num_of a = num_of b))"

text \<open>The labels of the result: those of the left side, then those of the right side without the key.\<close>

definition left_labels :: "string \<Rightarrow> dataframe \<Rightarrow> dataframe \<Rightarrow> string list" where
  "left_labels on_column l r =
     map (\<lambda>c. if c \<noteq> on_column \<and> c \<in> set (columns r) then c @ ''_x'' else c) (columns l)"

definition right_labels :: "string \<Rightarrow> dataframe \<Rightarrow> dataframe \<Rightarrow> string list" where
  "right_labels on_column l r =
     map (\<lambda>c. if c \<in> set (columns l) then c @ ''_y'' else c)
         (filter (\<lambda>c. c \<noteq> on_column) (columns r))"

definition merged_columns :: "string \<Rightarrow> dataframe \<Rightarrow> dataframe \<Rightarrow> string list" where
  "merged_columns on_column l r = left_labels on_column l r @ right_labels on_column l r"

text \<open>
  The labels that a suffix has made equal to an earlier label of the same side, the labels
  before the suffix being different.
\<close>

definition suffix_dups :: "string list \<Rightarrow> string list \<Rightarrow> string list" where
  "suffix_dups orig renamed =
     map (\<lambda>i. renamed ! i)
         (filter (\<lambda>i. renamed ! i \<in> set (take i renamed) \<and> orig ! i \<notin> set (take i orig))
                 [0..<length orig])"

definition merge_dups :: "string \<Rightarrow> dataframe \<Rightarrow> dataframe \<Rightarrow> string list" where
  "merge_dups on_column l r =
     suffix_dups (columns l) (left_labels on_column l r) @
     suffix_dups (filter (\<lambda>c. c \<noteq> on_column) (columns r)) (right_labels on_column l r)"

text \<open>
  The cells of a row of a table whose rows are \<open>rs\<close>, after the columns of integers of
  that table have become columns of floats.
\<close>

fun upcast :: "val \<Rightarrow> val" where
  "upcast (IntV i) = FloatV i"
| "upcast v = v"

definition int_column :: "nat \<Rightarrow> val list list \<Rightarrow> bool" where
  "int_column j rs = list_all (\<lambda>r. is_int (r ! j)) rs"

definition upcast_ints :: "val list list \<Rightarrow> val list \<Rightarrow> val list" where
  "upcast_ints rs row = map (\<lambda>j. if int_column j rs then upcast (row ! j) else row ! j) [0..<length row]"

text \<open>
  The rows of one side that match a key, and whether some row of \<open>xs\<close> has no match among
  \<open>ys\<close>: then the cells taken from \<open>ys\<close> share their columns with missing values.
\<close>

definition matches :: "nat \<Rightarrow> val \<Rightarrow> val list list \<Rightarrow> val list list" where
  "matches k key rs = filter (\<lambda>row. same_key (row ! k) key) rs"

definition some_unmatched :: "nat \<Rightarrow> val list list \<Rightarrow> nat \<Rightarrow> val list list \<Rightarrow> bool" where
  "some_unmatched kx xs ky ys = list_ex (\<lambda>x. matches ky (x ! kx) ys = []) xs"

definition filled :: "bool \<Rightarrow> val list list \<Rightarrow> val list \<Rightarrow> val list" where
  "filled missing rs row = (if missing then upcast_ints rs row else row)"

definition matched_row :: "nat \<Rightarrow> val list \<Rightarrow> val list \<Rightarrow> val list" where
  "matched_row kr lrow rrow = lrow @ del_at kr rrow"

definition left_only_row :: "dataframe \<Rightarrow> val list \<Rightarrow> val list" where
  "left_only_row r lrow = lrow @ replicate (length (columns r) - 1) NaN"

definition right_only_row :: "dataframe \<Rightarrow> nat \<Rightarrow> nat \<Rightarrow> val list \<Rightarrow> val list" where
  "right_only_row l kl kr rrow =
     (replicate (length (columns l)) NaN)[kl := rrow ! kr] @ del_at kr rrow"

definition inner_rows :: "nat \<Rightarrow> nat \<Rightarrow> val list list \<Rightarrow> val list list \<Rightarrow> val list list" where
  "inner_rows kl kr ls rs =
     concat (map (\<lambda>lrow. map (matched_row kr lrow) (matches kr (lrow ! kl) rs)) ls)"

definition left_rows :: "dataframe \<Rightarrow> nat \<Rightarrow> nat \<Rightarrow> val list list \<Rightarrow> val list list \<Rightarrow> val list list" where
  "left_rows r kl kr ls rs =
     concat (map (\<lambda>lrow. case matches kr (lrow ! kl) rs of
                            [] \<Rightarrow> [left_only_row r lrow]
                          | m # ms \<Rightarrow>
                              map (\<lambda>rrow. matched_row kr lrow
                                            (filled (some_unmatched kl ls kr rs) rs rrow))
                                  (m # ms)) ls)"

definition right_rows :: "dataframe \<Rightarrow> nat \<Rightarrow> nat \<Rightarrow> val list list \<Rightarrow> val list list \<Rightarrow> val list list" where
  "right_rows l kl kr ls rs =
     concat (map (\<lambda>rrow. case matches kl (rrow ! kr) ls of
                            [] \<Rightarrow> [right_only_row l kl kr rrow]
                          | m # ms \<Rightarrow>
                              map (\<lambda>lrow. matched_row kr
                                            ((filled (some_unmatched kr rs kl ls) ls lrow)[kl := rrow ! kr])
                                            rrow)
                                  (m # ms)) rs)"

fun str_le :: "string \<Rightarrow> string \<Rightarrow> bool" where
  "str_le [] t = True"
| "str_le (a # u) [] = False"
| "str_le (a # u) (b # t) = ((of_char a :: nat) < of_char b \<or> (a = b \<and> str_le u t))"

text \<open>The order of the keys of an outer join: numbers, then strings, then the missing value.\<close>

fun val_le :: "val \<Rightarrow> val \<Rightarrow> bool" where
  "val_le v NaN = True"
| "val_le NaN v = False"
| "val_le (StrV a) (StrV b) = str_le a b"
| "val_le (StrV a) v = False"
| "val_le v (StrV b) = True"
| "val_le a b = (the (num_of a) \<le> the (num_of b))"

fun insert_by_key :: "nat \<Rightarrow> val list \<Rightarrow> val list list \<Rightarrow> val list list" where
  "insert_by_key k x [] = [x]"
| "insert_by_key k x (y # ys) =
     (if val_le (x ! k) (y ! k) then x # y # ys else y # insert_by_key k x ys)"

definition sort_by_key :: "nat \<Rightarrow> val list list \<Rightarrow> val list list" where
  "sort_by_key k xs = foldr (insert_by_key k) xs []"

definition outer_rows :: "dataframe \<Rightarrow> dataframe \<Rightarrow> nat \<Rightarrow> nat \<Rightarrow> val list list" where
  "outer_rows l r kl kr =
     (let ls = rows l; rs = rows r;
          lmiss = some_unmatched kr rs kl ls;
          rmiss = some_unmatched kl ls kr rs
      in sort_by_key kl
           (concat (map (\<lambda>lrow. case matches kr (lrow ! kl) rs of
                                   [] \<Rightarrow> [(filled lmiss ls lrow)[kl := lrow ! kl] @
                                         replicate (length (columns r) - 1) NaN]
                                 | m # ms \<Rightarrow>
                                     map (\<lambda>rrow. matched_row kr ((filled lmiss ls lrow)[kl := lrow ! kl])
                                                   (filled rmiss rs rrow))
                                         (m # ms)) ls) @
            map (\<lambda>rrow. (replicate (length (columns l)) NaN)[kl := rrow ! kr] @
                         del_at kr (filled rmiss rs rrow))
                (filter (\<lambda>rrow. matches kl (rrow ! kr) ls = []) rs)))"


definition pd_merge :: "dataframe \<Rightarrow> dataframe \<Rightarrow> string \<Rightarrow> string \<Rightarrow> exn + dataframe" where
  "pd_merge l r on_column how =
     (let kl = col_pos on_column (columns l); kr = col_pos on_column (columns r)
      in if how \<notin> set valid_joins then Inl (MergeError how)
         else if repeated on_column l \<or> repeated on_column r then Inl (ValueError on_column)
         else if incompatible_keys (column_values on_column l) (column_values on_column r)
         then Inl (ValueError on_column)
         else if merge_dups on_column l r \<noteq> [] then Inl (MergeError (hd (merge_dups on_column l r)))
         else Inr \<lparr>columns = merged_columns on_column l r,
                   rows = (if how = ''inner'' then inner_rows kl kr (rows l) (rows r)
                           else if how = ''left'' then left_rows r kl kr (rows l) (rows r)
                           else if how = ''right'' then right_rows l kl kr (rows l) (rows r)
                           else outer_rows l r kl kr)\<rparr>)"

section \<open>The persistent server: mcp\_handles\_server/df\_abstractions.py\<close>

subsection \<open>The handles table and its two helpers\<close>

text \<open>
  Modelled from the spec: \<^verbatim>\<open>sqlite3\<close> and \<^verbatim>\<open>pickle\<close> are library code. Section 3 of
  the specification describes the backing as a table of (handle token, serialized table)
  pairs, keyed by the token, with insert-or-replace on write. The table
  \<^verbatim>\<open>handles (handle TEXT PRIMARY KEY, dataframe BLOB)\<close> is a list of rows; a blob is the
  pickled frame, and unpickling gives the frame back. Statements and unpickling do not
  fail here, so that the \<^verbatim>\<open>except\<close> branch of \<^verbatim>\<open>load_handle\<close>, which raises the
  exception again, has no counterpart.
\<close>

datatype blob = Pickled dataframe

definition pickle_dumps :: "dataframe \<Rightarrow> blob" where
  "pickle_dumps df = Pickled df"

fun pickle_loads :: "blob \<Rightarrow> dataframe" where
  "pickle_loads (Pickled df) = df"

text \<open>
  What the connection is asked to do is recorded, statement by statement, together with
  the verdict that \<^verbatim>\<open>save_handle\<close> prints about its verification read. The other
  console output of the source is not recorded.
\<close>

datatype event =
    SqlInsertOrReplace string blob
  | SqlCommit
  | SqlSelectDataframe string
  | SqlSelectHandles
  | PrintVerified string
  | PrintWarning string

record server_state =
  handles_tbl :: "(string \<times> blob) list"
  trace :: "event list"

text \<open>\<^verbatim>\<open>INSERT OR REPLACE\<close>: the row with the same primary key is deleted, the new row is added.\<close>

definition insert_or_replace :: "string \<Rightarrow> blob \<Rightarrow> (string \<times> blob) list \<Rightarrow> (string \<times> blob) list" where
  "insert_or_replace handle b tbl = filter (\<lambda>row. fst row \<noteq> handle) tbl @ [(handle, b)]"

text \<open>\<^verbatim>\<open>SELECT dataframe FROM handles WHERE handle = ?\<close> followed by \<^verbatim>\<open>fetchone()\<close>.\<close>

definition select_dataframe :: "string \<Rightarrow> (string \<times> blob) list \<Rightarrow> blob option" where
  "select_dataframe handle tbl = map_option snd (find (\<lambda>row. fst row = handle) tbl)"

definition load_handle :: "string \<Rightarrow> server_state \<Rightarrow> dataframe option \<times> server_state" where
  "load_handle handle s =
     (case select_dataframe handle (handles_tbl s) of
        Some b \<Rightarrow> (Some (pickle_loads b), s\<lparr>trace := trace s @ [SqlSelectDataframe handle]\<rparr>)
      | None \<Rightarrow> (None, s\<lparr>trace := trace s @ [SqlSelectDataframe handle, SqlSelectHandles]\<rparr>))"

definition save_handle :: "string \<Rightarrow> dataframe \<Rightarrow> server_state \<Rightarrow> server_state" where
  "save_handle handle df s =
     (let df_blob = pickle_dumps df;
          s1 = s\<lparr>handles_tbl := insert_or_replace handle df_blob (handles_tbl s),
                  trace := trace s @ [SqlInsertOrReplace handle df_blob, SqlCommit]\<rparr>;
          (verify, s2) = load_handle handle s1
      in if verify \<noteq> None
         then s2\<lparr>trace := trace s2 @ [PrintVerified handle]\<rparr>
         else s2\<lparr>trace := trace s2 @ [PrintWarning handle]\<rparr>)"

subsection \<open>Replies and error messages\<close>

text \<open>
  Every tool returns a string: a handle token or a text that starts with \<^verbatim>\<open>Error\<close>. The
  error texts of the three servers are the constructors of one type, carrying what the
  text interpolates; a tool that lets an exception escape is \<open>Raised\<close>.
\<close>

datatype error =
    TableNotFound string
  | TableNotFoundInSample string
  | HandleNotFound string
  | HandlesNotFound
  | ColumnsNotFoundUnnamed
  | JoinColumnNotFoundUnnamed
  | ColumnsNotFound "string list"
  | FilterError exn
  | GroupColumnsNotFound "string list"
  | AggColumnsNotFound "string list"
  | GroupingError exn
  | CombineColumnsNotFound string string string
  | CombineError string exn
  | JoinColumnNotFound string
  | InvalidJoinType string
  | JoinError exn
  | NotPositiveInteger
  | TopRowsError int string exn
  | InputHandleNotFound string string
  | ExecutionError exn
  | OutputAliasNotFound string
  | OutputNotDataFrame string string
  | InvalidFormat string
  | MaterializeError string string exn

datatype reply = Handle string | Error error | Raised exn

text \<open>The column labels that an error text spells out.\<close>

fun columns_named :: "error \<Rightarrow> string list" where
  "columns_named (ColumnsNotFound cs) = cs"
| "columns_named (GroupColumnsNotFound cs) = cs"
| "columns_named (AggColumnsNotFound cs) = cs"
| "columns_named (CombineColumnsNotFound c1 c2 h) = [c1, c2]"
| "columns_named (JoinColumnNotFound c) = [c]"
| "columns_named e = []"

subsection \<open>The tools of the persistent server\<close>

definition users_srv :: dataframe where
  "users_srv =
     \<lparr>columns = [''user_id'', ''name'', ''city''],
      rows = [[IntV 1, StrV ''Alice'', StrV ''New York''],
              [IntV 2, StrV ''Bob'', StrV ''London''],
              [IntV 3, StrV ''Charlie'', StrV ''Paris''],
              [IntV 4, StrV ''David'', StrV ''London''],
              [IntV 5, StrV ''Eve'', StrV ''Tokyo''],
              [IntV 6, StrV ''Alice2'', StrV ''New York'']]\<rparr>"

definition orders :: dataframe where
  "orders =
     \<lparr>columns = [''order_id'', ''user_id'', ''product'', ''amount''],
      rows = [[IntV 101, IntV 1, StrV ''Laptop'', IntV 1200],
              [IntV 102, IntV 2, StrV ''Keyboard'', IntV 75],
              [IntV 103, IntV 1, StrV ''Mouse'', IntV 25],
              [IntV 104, IntV 3, StrV ''Monitor'', IntV 300],
              [IntV 105, IntV 5, StrV ''Webcam'', IntV 50],
              [IntV 106, IntV 2, StrV ''Desk'', IntV 250]]\<rparr>"

definition sample_db_srv :: "string \<rightharpoonup> dataframe" where
  "sample_db_srv = [''users'' \<mapsto> users_srv, ''orders'' \<mapsto> orders]"

text \<open>
  The library calls that are not modelled: \<^verbatim>\<open>df.query(expr)\<close>,
  \<^verbatim>\<open>df.groupby(cols, as_index=False).agg(agg_dict)\<close> and the dtype names of
  \<^verbatim>\<open>df.dtypes.astype(str)\<close>.
\<close>

record pandas =
  df_query :: "dataframe \<Rightarrow> string \<Rightarrow> exn + dataframe"
  groupby_agg :: "dataframe \<Rightarrow> string list \<Rightarrow> (string \<times> string) list \<Rightarrow> exn + dataframe"
  dtype_names :: "dataframe \<Rightarrow> string list"

text \<open>
  In each tool the argument \<open>u\<close> is the value that \<^verbatim>\<open>str(uuid.uuid4())\<close> returns in that
  call.
\<close>

definition query_database :: "string \<Rightarrow> string \<Rightarrow> server_state \<Rightarrow> reply \<times> server_state" where
  "query_database u table_name s =
     (case sample_db_srv table_name of
        Some df \<Rightarrow> (Handle u, save_handle u (df_copy df) s)
      | None \<Rightarrow> (Error (TableNotFound table_name), s))"

definition combine_columns ::
  "string \<Rightarrow> string \<Rightarrow> string \<Rightarrow> string \<Rightarrow> string \<Rightarrow> server_state \<Rightarrow> reply \<times> server_state" where
  "combine_columns handle col1_name col2_name new_col_name sep s =
     (case load_handle handle s of
        (None, s1) \<Rightarrow> (Error (HandleNotFound handle), s1)
      | (Some df, s1) \<Rightarrow>
          if \<not> has_column col1_name df \<or> \<not> has_column col2_name df
          then (Error ColumnsNotFoundUnnamed, s1)
          else (case combine_series col1_name col2_name new_col_name sep df of
                  Inl e \<Rightarrow> (Raised e, s1)
                | Inr df' \<Rightarrow> (Handle handle, save_handle handle df' s1)))"

definition join_dataframes ::
  "string \<Rightarrow> string \<Rightarrow> string \<Rightarrow> string \<Rightarrow> string \<Rightarrow> server_state \<Rightarrow> reply \<times> server_state" where
  "join_dataframes u handle1 handle2 on_column how s =
     (let (df1, s1) = load_handle handle1 s;
          (df2, s2) = load_handle handle2 s1
      in if df1 = None \<or> df2 = None then (Error HandlesNotFound, s2)
         else if \<not> has_column on_column (the df1) \<or> \<not> has_column on_column (the df2)
         then (Error JoinColumnNotFoundUnnamed, s2)
         else (case pd_merge (the df1) (the df2) on_column how of
                 Inl e \<Rightarrow> (Raised e, s2)
               | Inr joined_df \<Rightarrow> (Handle u, save_handle u joined_df s2)))"

definition select_columns :: "string \<Rightarrow> string \<Rightarrow> string list \<Rightarrow> server_state \<Rightarrow> reply \<times> server_state" where
  "select_columns u handle cols s =
     (case load_handle handle s of
        (None, s1) \<Rightarrow> (Error (HandleNotFound handle), s1)
      | (Some df, s1) \<Rightarrow>
          let missing_cols = filter (\<lambda>col. col \<notin> set (columns df)) cols
          in if missing_cols \<noteq> [] then (Error (ColumnsNotFound missing_cols), s1)
             else (Handle u, save_handle u (df_copy (df_select cols df)) s1))"

definition filter_rows ::
  "pandas \<Rightarrow> string \<Rightarrow> string \<Rightarrow> string \<Rightarrow> server_state \<Rightarrow> reply \<times> server_state" where
  "filter_rows pd u handle filter_expr s =
     (case load_handle handle s of
        (None, s1) \<Rightarrow> (Error (HandleNotFound handle), s1)
      | (Some df, s1) \<Rightarrow>
          (case df_query pd df filter_expr of
             Inl e \<Rightarrow> (Error (FilterError e), s1)
           | Inr filtered_df \<Rightarrow> (Handle u, save_handle u filtered_df s1)))"

definition drop_columns :: "string \<Rightarrow> string \<Rightarrow> string list \<Rightarrow> server_state \<Rightarrow> reply \<times> server_state" where
  "drop_columns u handle cols s =
     (case load_handle handle s of
        (None, s1) \<Rightarrow> (Error (HandleNotFound handle), s1)
      | (Some df, s1) \<Rightarrow> (Handle u, save_handle u (df_drop cols df) s1))"

definition remove_duplicates :: "string \<Rightarrow> string \<Rightarrow> server_state \<Rightarrow> reply \<times> server_state" where
  "remove_duplicates u handle s =
     (case load_handle handle s of
        (None, s1) \<Rightarrow> (Error (HandleNotFound handle), s1)
      | (Some df, s1) \<Rightarrow> (Handle u, save_handle u (drop_duplicates df) s1))"

text \<open>
  \<^verbatim>\<open>columns: list = None\<close>; the test \<^verbatim>\<open>if columns:\<close> fails for \<^verbatim>\<open>None\<close> and for the
  empty list.
\<close>

definition distinct_rows ::
  "string \<Rightarrow> string \<Rightarrow> string list option \<Rightarrow> server_state \<Rightarrow> reply \<times> server_state" where
  "distinct_rows u handle cols_opt s =
     (case load_handle handle s of
        (None, s1) \<Rightarrow> (Error (HandleNotFound handle), s1)
      | (Some df, s1) \<Rightarrow>
          if cols_opt \<noteq> None \<and> cols_opt \<noteq> Some []
          then let cols = the cols_opt;
                   missing_cols = filter (\<lambda>col. col \<notin> set (columns df)) cols
               in if missing_cols \<noteq> [] then (Error (ColumnsNotFound missing_cols), s1)
                  else (Handle u, save_handle u (drop_duplicates (df_select cols df)) s1)
          else (Handle u, save_handle u (drop_duplicates df) s1))"

definition schema_info :: "pandas \<Rightarrow> dataframe \<Rightarrow> dataframe" where
  "schema_info pd df =
     \<lparr>columns = [''column'', ''dtype'', ''num_rows''],
      rows = map (\<lambda>(c, t). [StrV c, StrV t, IntV (int (len_df df))])
                 (zip (columns df) (dtype_names pd df))\<rparr>"

definition get_schema :: "pandas \<Rightarrow> string \<Rightarrow> string \<Rightarrow> server_state \<Rightarrow> reply \<times> server_state" where
  "get_schema pd u handle s =
     (case load_handle handle s of
        (None, s1) \<Rightarrow> (Error (HandleNotFound handle), s1)
      | (Some df, s1) \<Rightarrow> (Handle u, save_handle u (schema_info pd df) s1))"

text \<open>\<^verbatim>\<open>agg_dict\<close> is a dictionary from column label to aggregation name, here in key order.\<close>

definition group_by ::
  "pandas \<Rightarrow> string \<Rightarrow> string \<Rightarrow> string list \<Rightarrow> (string \<times> string) list \<Rightarrow> server_state
     \<Rightarrow> reply \<times> server_state" where
  "group_by pd u handle group_columns agg_dict s =
     (case load_handle handle s of
        (None, s1) \<Rightarrow> (Error (HandleNotFound handle), s1)
      | (Some df, s1) \<Rightarrow>
          let missing_group_cols = filter (\<lambda>col. col \<notin> set (columns df)) group_columns
          in if missing_group_cols \<noteq> [] then (Error (GroupColumnsNotFound missing_group_cols), s1)
             else let missing_agg_cols = filter (\<lambda>col. col \<notin> set (columns df)) (map fst agg_dict)
                  in if missing_agg_cols \<noteq> [] then (Error (AggColumnsNotFound missing_agg_cols), s1)
                     else (case groupby_agg pd df group_columns agg_dict of
                             Inl e \<Rightarrow> (Error (GroupingError e), s1)
                           | Inr grouped_df \<Rightarrow> (Handle u, save_handle u grouped_df s1)))"

subsection \<open>Calls and runs of the persistent server\<close>

text \<open>
  The tools that write to the store. \<^verbatim>\<open>get_db_tables\<close> only lists the keys of
  \<^verbatim>\<open>sample_db\<close> and is left out.
\<close>

datatype call =
    QueryDatabase string
  | CombineColumns string string string string string
  | JoinDataframes string string string string
  | SelectColumns string "string list"
  | FilterRows string string
  | DropColumns string "string list"
  | RemoveDuplicates string
  | DistinctRows string "string list option"
  | GetSchema string
  | GroupBy string "string list" "(string \<times> string) list"

fun step :: "pandas \<Rightarrow> string \<Rightarrow> call \<Rightarrow> server_state \<Rightarrow> reply \<times> server_state" where
  "step pd u (QueryDatabase n) s = query_database u n s"
| "step pd u (CombineColumns h c1 c2 new sep) s = combine_columns h c1 c2 new sep s"
| "step pd u (JoinDataframes h1 h2 c how) s = join_dataframes u h1 h2 c how s"
| "step pd u (SelectColumns h cs) s = select_columns u h cs s"
| "step pd u (FilterRows h e) s = filter_rows pd u h e s"
| "step pd u (DropColumns h cs) s = drop_columns u h cs s"
| "step pd u (RemoveDuplicates h) s = remove_duplicates u h s"
| "step pd u (DistinctRows h cs) s = distinct_rows u h cs s"
| "step pd u (GetSchema h) s = get_schema pd u h s"
| "step pd u (GroupBy h gs ad) s = group_by pd u h gs ad s"

text \<open>The handles a call takes as input.\<close>

fun call_inputs :: "call \<Rightarrow> string list" where
  "call_inputs (QueryDatabase n) = []"
| "call_inputs (CombineColumns h c1 c2 new sep) = [h]"
| "call_inputs (JoinDataframes h1 h2 c how) = [h1, h2]"
| "call_inputs (SelectColumns h cs) = [h]"
| "call_inputs (FilterRows h e) = [h]"
| "call_inputs (DropColumns h cs) = [h]"
| "call_inputs (RemoveDuplicates h) = [h]"
| "call_inputs (DistinctRows h cs) = [h]"
| "call_inputs (GetSchema h) = [h]"
| "call_inputs (GroupBy h gs ad) = [h]"

fun is_combine :: "call \<Rightarrow> bool" where
  "is_combine (CombineColumns h c1 c2 new sep) = True"
| "is_combine c = False"

text \<open>A session: the calls in the order they arrive, each with the token drawn in it.\<close>

fun run :: "pandas \<Rightarrow> (string \<times> call) list \<Rightarrow> server_state \<Rightarrow> server_state" where
  "run pd [] s = s"
| "run pd ((u, c) # cs) s = run pd cs (snd (step pd u c s))"

definition bound :: "string \<Rightarrow> server_state \<Rightarrow> bool" where
  "bound h s = (select_dataframe h (handles_tbl s) \<noteq> None)"

definition resolve :: "string \<Rightarrow> server_state \<Rightarrow> dataframe option" where
  "resolve h s = fst (load_handle h s)"

section \<open>The in-memory servers\<close>

text \<open>
  \<^verbatim>\<open>mcp_handles/df_abstractions.py\<close> and \<^verbatim>\<open>mcp_handles/pandas_generic.py\<close> keep
  their frames in the dictionary \<^verbatim>\<open>data_handles\<close>. A dictionary entry is a reference to
  a DataFrame object, and one of the tools changes such an object in place, so objects
  live in a heap: the address of an object is its position in the list, a new object is
  put at the end.
\<close>

record mem_state =
  heap :: "dataframe list"
  sample_db :: "string \<rightharpoonup> nat"
  data_handles :: "string \<rightharpoonup> nat"

definition users :: dataframe where
  "users =
     \<lparr>columns = [''user_id'', ''name'', ''city''],
      rows = [[IntV 1, StrV ''Alice'', StrV ''New York''],
              [IntV 2, StrV ''Bob'', StrV ''London''],
              [IntV 3, StrV ''Charlie'', StrV ''Paris''],
              [IntV 4, StrV ''David'', StrV ''London''],
              [IntV 5, StrV ''Eve'', StrV ''Tokyo'']]\<rparr>"

text \<open>The state of either module once it is loaded.\<close>

definition init_mem :: mem_state where
  "init_mem = \<lparr>heap = [users, orders],
               sample_db = [''users'' \<mapsto> 0, ''orders'' \<mapsto> 1],
               data_handles = Map.empty\<rparr>"

definition new_object :: "dataframe \<Rightarrow> mem_state \<Rightarrow> nat \<times> mem_state" where
  "new_object df s = (length (heap s), s\<lparr>heap := heap s @ [df]\<rparr>)"

text \<open>\<^verbatim>\<open>obj.copy()\<close>: a new object with the same content.\<close>

definition copy_object :: "nat \<Rightarrow> mem_state \<Rightarrow> nat \<times> mem_state" where
  "copy_object a s = new_object (heap s ! a) s"

text \<open>What a handle and a seed table name stand for.\<close>

definition resolve_mem :: "mem_state \<Rightarrow> string \<Rightarrow> dataframe option" where
  "resolve_mem s h = map_option (\<lambda>a. heap s ! a) (data_handles s h)"

definition seed_table :: "mem_state \<Rightarrow> string \<Rightarrow> dataframe option" where
  "seed_table s n = map_option (\<lambda>a. heap s ! a) (sample_db s n)"

subsection \<open>mcp\_handles/df\_abstractions.py\<close>

definition query_database_mem :: "string \<Rightarrow> string \<Rightarrow> mem_state \<Rightarrow> reply \<times> mem_state" where
  "query_database_mem u table_name s =
     (case sample_db s table_name of
        Some a \<Rightarrow>
          let (df_copy, s1) = copy_object a s
          in (Handle u, s1\<lparr>data_handles := (data_handles s1)(u \<mapsto> df_copy)\<rparr>)
      | None \<Rightarrow> (Error (TableNotFoundInSample table_name), s))"

text \<open>
  The assignment of the new column acts on the object that the dictionary refers to. An
  exception of the assignment is caught and reported as an error value; the object is then
  as it was.
\<close>

definition combine_columns_mem ::
  "string \<Rightarrow> string \<Rightarrow> string \<Rightarrow> string \<Rightarrow> string \<Rightarrow> mem_state \<Rightarrow> reply \<times> mem_state" where
  "combine_columns_mem handle col1_name col2_name new_col_name sep s =
     (case data_handles s handle of
        None \<Rightarrow> (Error (HandleNotFound handle), s)
      | Some a \<Rightarrow>
          let df = heap s ! a
          in if col1_name \<notin> set (columns df) \<or> col2_name \<notin> set (columns df)
             then (Error (CombineColumnsNotFound col1_name col2_name handle), s)
             else (case combine_series col1_name col2_name new_col_name sep df of
                     Inl e \<Rightarrow> (Error (CombineError handle e), s)
                   | Inr df' \<Rightarrow>
                       let s1 = s\<lparr>heap := (heap s)[a := df']\<rparr>
                       in (Handle handle, s1\<lparr>data_handles := (data_handles s1)(handle \<mapsto> a)\<rparr>)))"

definition join_dataframes_mem ::
  "string \<Rightarrow> string \<Rightarrow> string \<Rightarrow> string \<Rightarrow> string \<Rightarrow> mem_state \<Rightarrow> reply \<times> mem_state" where
  "join_dataframes_mem u handle1 handle2 on_column how s =
     (if data_handles s handle1 = None then (Error (HandleNotFound handle1), s)
      else if data_handles s handle2 = None then (Error (HandleNotFound handle2), s)
      else let df1 = heap s ! the (data_handles s handle1);
               df2 = heap s ! the (data_handles s handle2)
           in if on_column \<notin> set (columns df1) \<or> on_column \<notin> set (columns df2)
              then (Error (JoinColumnNotFound on_column), s)
              else if how \<notin> set valid_joins then (Error (InvalidJoinType how), s)
              else (case pd_merge df1 df2 on_column how of
                      Inl e \<Rightarrow> (Error (JoinError e), s)
                    | Inr joined_df \<Rightarrow>
                        let (a, s1) = new_object joined_df s
                        in (Handle u, s1\<lparr>data_handles := (data_handles s1)(u \<mapsto> a)\<rparr>)))"

text \<open>
  Tools that answer with a text. The text is kept as the expression that produces it;
  whether pandas raises while rendering is a parameter. An argument declared \<^verbatim>\<open>n: int\<close>
  may arrive as an integer or as something else.
\<close>

datatype rendered =
    ToString dataframe
  | ToStringTruncated dataframe nat
  | ToJson string dataframe
  | ToCsv dataframe

datatype text_reply = Text rendered | TextError error

datatype pyarg = IntArg int | OtherArg

record pandas_io =
  raises :: "rendered \<Rightarrow> exn option"
  df_sample :: "nat \<Rightarrow> dataframe \<Rightarrow> dataframe"

definition get_top_n_rows :: "pandas_io \<Rightarrow> string \<Rightarrow> pyarg \<Rightarrow> mem_state \<Rightarrow> text_reply" where
  "get_top_n_rows io handle n s =
     (case data_handles s handle of
        None \<Rightarrow> TextError (HandleNotFound handle)
      | Some a \<Rightarrow>
          (case n of
             OtherArg \<Rightarrow> TextError NotPositiveInteger
           | IntArg i \<Rightarrow>
               if i \<le> 0 then TextError NotPositiveInteger
               else let n' = (if i > 1000 then 1000 else i);
                        top_n_str = ToString (df_head (nat n') (heap s ! a))
                    in (case raises io top_n_str of
                          Some e \<Rightarrow> TextError (TopRowsError n' handle e)
                        | None \<Rightarrow> Text top_n_str)))"

text \<open>
  The tools of this module that write to the store. \<^verbatim>\<open>get_shape\<close>, \<^verbatim>\<open>get_head\<close> and
  \<^verbatim>\<open>get_top_n_rows\<close> only read \<^verbatim>\<open>data_handles\<close>.
\<close>

datatype mem_call =
    QueryDatabaseM string
  | CombineColumnsM string string string string string
  | JoinDataframesM string string string string

fun step_mem :: "string \<Rightarrow> mem_call \<Rightarrow> mem_state \<Rightarrow> reply \<times> mem_state" where
  "step_mem u (QueryDatabaseM n) s = query_database_mem u n s"
| "step_mem u (CombineColumnsM h c1 c2 new sep) s = combine_columns_mem h c1 c2 new sep s"
| "step_mem u (JoinDataframesM h1 h2 c how) s = join_dataframes_mem u h1 h2 c how s"

subsection \<open>mcp\_handles/pandas\_generic.py\<close>

text \<open>
  \<^verbatim>\<open>query_database\<close> and \<^verbatim>\<open>execute_pandas_code\<close> write to the store;
  \<^verbatim>\<open>materialize_dataframe\<close> and \<^verbatim>\<open>get_shape\<close> only read it.
\<close>

definition query_database_gen :: "string \<Rightarrow> string \<Rightarrow> mem_state \<Rightarrow> reply \<times> mem_state" where
  "query_database_gen u table_name s =
     (case sample_db s table_name of
        Some a \<Rightarrow>
          let (df_copy, s1) = copy_object a s
          in (Handle u, s1\<lparr>data_handles := (data_handles s1)(u \<mapsto> df_copy)\<rparr>)
      | None \<Rightarrow> (Error (TableNotFound table_name), s))"

text \<open>
  A local variable of the executed code holds a DataFrame object or a value of another
  type. The code itself is a parameter. \<^verbatim>\<open>exec\<close> runs it inside the server, with the
  builtins at hand: besides its local variables it can reach every object and, by
  importing the module, the dictionaries \<^verbatim>\<open>sample_db\<close> and \<^verbatim>\<open>data_handles\<close>. So it
  receives the local variables and the whole state and leaves both changed, with or
  without an exception.
\<close>

datatype pyval = PyDataFrame nat | PyOther string

type_synonym locals = "string \<rightharpoonup> pyval"

type_synonym pycode = "locals \<Rightarrow> mem_state \<Rightarrow> (exn + locals) \<times> mem_state"

text \<open>The first loop: \<^verbatim>\<open>for alias, handle in input_handles.items()\<close>.\<close>

fun load_inputs :: "(string \<times> string) list \<Rightarrow> locals \<Rightarrow> mem_state \<Rightarrow> (error + locals) \<times> mem_state" where
  "load_inputs [] local_vars s = (Inr local_vars, s)"
| "load_inputs ((alias, handle) # rest) local_vars s =
     (case data_handles s handle of
        None \<Rightarrow> (Inl (InputHandleNotFound handle alias), s)
      | Some a \<Rightarrow>
          let (c, s1) = copy_object a s
          in load_inputs rest (local_vars(alias \<mapsto> PyDataFrame c)) s1)"

text \<open>
  The second loop: \<^verbatim>\<open>for alias in output_aliases\<close>. \<open>uuid4 i\<close> is the token drawn in
  round \<open>i\<close>.
\<close>

fun store_outputs ::
  "(nat \<Rightarrow> string) \<Rightarrow> nat \<Rightarrow> string list \<Rightarrow> locals \<Rightarrow> (string \<rightharpoonup> string) \<Rightarrow> mem_state
     \<Rightarrow> (error + (string \<rightharpoonup> string)) \<times> mem_state" where
  "store_outputs uuid4 i [] local_vars output_handles s = (Inr output_handles, s)"
| "store_outputs uuid4 i (alias # rest) local_vars output_handles s =
     (case local_vars alias of
        None \<Rightarrow> (Inl (OutputAliasNotFound alias), s)
      | Some (PyOther ty) \<Rightarrow> (Inl (OutputNotDataFrame alias ty), s)
      | Some (PyDataFrame result_df) \<Rightarrow>
          store_outputs uuid4 (Suc i) rest local_vars
            (output_handles(alias \<mapsto> uuid4 i))
            (s\<lparr>data_handles := (data_handles s)(uuid4 i \<mapsto> result_df)\<rparr>))"

definition execute_pandas_code ::
  "(nat \<Rightarrow> string) \<Rightarrow> pycode \<Rightarrow> (string \<times> string) list \<Rightarrow> string list \<Rightarrow> mem_state
     \<Rightarrow> (error + (string \<rightharpoonup> string)) \<times> mem_state" where
  "execute_pandas_code uuid4 code input_handles output_aliases s =
     (case load_inputs input_handles Map.empty s of
        (Inl err, s1) \<Rightarrow> (Inl err, s1)
      | (Inr local_vars, s1) \<Rightarrow>
          (case code local_vars s1 of
             (Inl e, s2) \<Rightarrow> (Inl (ExecutionError e), s2)
           | (Inr local_vars', s2) \<Rightarrow>
               store_outputs uuid4 0 output_aliases local_vars' Map.empty s2))"

definition materialize_dataframe :: "pandas_io \<Rightarrow> string \<Rightarrow> string \<Rightarrow> pyarg \<Rightarrow> mem_state \<Rightarrow> text_reply" where
  "materialize_dataframe io handle format n s =
     (case data_handles s handle of
        None \<Rightarrow> TextError (HandleNotFound handle)
      | Some a \<Rightarrow>
          let n = (case n of IntArg i \<Rightarrow> if i \<le> 0 then 5 else i | OtherArg \<Rightarrow> 5);
              df = heap s ! a;
              finish = (\<lambda>output_str. case raises io output_str of
                                       Some e \<Rightarrow> TextError (MaterializeError handle format e)
                                     | None \<Rightarrow> Text output_str)
          in if format = ''head_string'' then finish (ToString (df_head (nat n) df))
             else if format = ''tail_string'' then finish (ToString (df_tail (nat n) df))
             else if format = ''sample_string''
             then finish (ToString (df_sample io (min (nat n) (len_df df)) df))
             else if format = ''full_string''
             then (if len_df df > 1000 then finish (ToStringTruncated (df_head 1000 df) 1000)
                   else finish (ToString df))
             else if format = ''json_records'' then finish (ToJson ''records'' df)
             else if format = ''json_split'' then finish (ToJson ''split'' df)
             else if format = ''csv'' then finish (ToCsv df)
             else TextError (InvalidFormat format))"

text \<open>The frame that a text shows, row by row.\<close>

fun rendered_frame :: "rendered \<Rightarrow> dataframe" where
  "rendered_frame (ToString df) = df"
| "rendered_frame (ToStringTruncated df k) = df"
| "rendered_frame (ToJson orient df) = df"
| "rendered_frame (ToCsv df) = df"

subsection \<open>Invariants of the in-memory stores\<close>

text \<open>
  Every reference held by \<^verbatim>\<open>sample_db\<close> or \<^verbatim>\<open>data_handles\<close> is the address of an
  object.
\<close>

definition valid_refs :: "mem_state \<Rightarrow> bool" where
  "valid_refs s =
     ((\<forall>n a. sample_db s n = Some a \<longrightarrow> a < length (heap s)) \<and>
      (\<forall>h a. data_handles s h = Some a \<longrightarrow> a < length (heap s)))"

text \<open>
  No handle refers to the object of a seed table, and no two handles refer to the same
  object.
\<close>

definition unshared :: "mem_state \<Rightarrow> bool" where
  "unshared s =
     (valid_refs s \<and>
      (\<forall>h n a. data_handles s h = Some a \<longrightarrow> sample_db s n \<noteq> Some a) \<and>
      (\<forall>h k a. data_handles s h = Some a \<and> data_handles s k = Some a \<longrightarrow> h = k))"

text \<open>The handle whose table a call changes in place.\<close>

fun rebinds :: "mem_call \<Rightarrow> string \<Rightarrow> bool" where
  "rebinds (CombineColumnsM h c1 c2 new sep) k = (k = h)"
| "rebinds c k = False"

text \<open>Code that leaves the two dictionaries of the module as they are.\<close>

definition keeps_store :: "pycode \<Rightarrow> bool" where
  "keeps_store code =
     (\<forall>lv s. sample_db (snd (code lv s)) = sample_db s \<and>
             data_handles (snd (code lv s)) = data_handles s)"

text \<open>
  Code that reaches objects only through its local variables: it leaves the two
  dictionaries as they are and, given local variables that refer to objects of the heap,
  it leaves every object that no local variable refers to as it was, it deletes no
  object, and the DataFrames among its results are objects of the heap.
\<close>

definition confined :: "pycode \<Rightarrow> bool" where
  "confined code =
     (keeps_store code \<and>
      (\<forall>lv s. (\<forall>x a. lv x = Some (PyDataFrame a) \<longrightarrow> a < length (heap s)) \<longrightarrow>
         (case code lv s of
            (res, s') \<Rightarrow>
              length (heap s) \<le> length (heap s') \<and>
              (\<forall>a<length (heap s). (\<forall>x. lv x \<noteq> Some (PyDataFrame a)) \<longrightarrow> heap s' ! a = heap s ! a) \<and>
              (\<forall>lv' x a. res = Inr lv' \<and> lv' x = Some (PyDataFrame a) \<longrightarrow> a < length (heap s')))))"

section \<open>Concrete states for worked examples\<close>

text \<open>The persistent server after \<^verbatim>\<open>query_database('users')\<close> has drawn the token \<open>h1\<close>.\<close>

definition example_server :: server_state where
  "example_server = \<lparr>handles_tbl = [(''h1'', Pickled users_srv)], trace = []\<rparr>"

text \<open>The frame \<^verbatim>\<open>df[['city', 'city']]\<close> of the users table of the persistent server.\<close>

definition city_twice :: dataframe where
  "city_twice =
     \<lparr>columns = [''city'', ''city''],
      rows = [[StrV ''New York'', StrV ''New York''], [StrV ''London'', StrV ''London''],
              [StrV ''Paris'', StrV ''Paris''], [StrV ''London'', StrV ''London''],
              [StrV ''Tokyo'', StrV ''Tokyo''], [StrV ''New York'', StrV ''New York'']]\<rparr>"

text \<open>
  A stand-in for the library calls that are parameters, used in worked examples only:
  the query and the aggregation raise, every dtype is reported as \<^verbatim>\<open>object\<close>.
\<close>

definition no_pandas :: pandas where
  "no_pandas = \<lparr>df_query = (\<lambda>df e. Inl (OtherException e)),
                groupby_agg = (\<lambda>df gs ad. Inl (OtherException ''agg'')),
                dtype_names = (\<lambda>df. map (\<lambda>c. ''object'') (columns df))\<rparr>"

text \<open>Either server with the handles \<open>l\<close> and \<open>r\<close> bound to two given tables.\<close>

definition two_handle_mem :: "dataframe \<Rightarrow> dataframe \<Rightarrow> mem_state" where
  "two_handle_mem l r = \<lparr>heap = [l, r], sample_db = Map.empty,
                          data_handles = [''l'' \<mapsto> 0, ''r'' \<mapsto> 1]\<rparr>"

definition two_handle_server :: "dataframe \<Rightarrow> dataframe \<Rightarrow> server_state" where
  "two_handle_server l r = \<lparr>handles_tbl = [(''l'', Pickled l), (''r'', Pickled r)], trace = []\<rparr>"




text \<open>Rendering that never raises; the sample is the head of the table.\<close>

definition quiet_io :: pandas_io where
  "quiet_io = \<lparr>raises = (\<lambda>r. None), df_sample = df_head\<rparr>"

text \<open>A table of 1200 rows, numbered from 0.\<close>

definition long_table :: dataframe where
  "long_table = \<lparr>columns = [''x''], rows = map (\<lambda>i. [IntV (int i)]) [0..<1200]\<rparr>"

text \<open>
  Code for \<^verbatim>\<open>execute_pandas_code\<close>: the first stands for
  \<^verbatim>\<open>result = df; n = len(df)\<close>, the second for code that raises. And a supply of
  tokens.
\<close>

definition assign_result :: pycode where
  "assign_result local_vars s =
     (Inr (local_vars(''result'' := local_vars ''df'', ''n'' \<mapsto> PyOther ''int'')), s)"

definition raise_error :: pycode where
  "raise_error local_vars s = (Inl (OtherException ''boom''), s)"

definition example_uuid4 :: "nat \<Rightarrow> string" where
  "example_uuid4 i = (if i = 0 then ''u0'' else ''u1'')"

text \<open>
  Code that changes its input in place and returns it:
  \<^verbatim>\<open>df.drop(df.index[1:], inplace=True); result = df\<close>.
\<close>

definition mutate_input :: pycode where
  "mutate_input local_vars s =
     (case local_vars ''df'' of
        Some (PyDataFrame a) \<Rightarrow>
          (Inr (local_vars(''result'' \<mapsto> PyDataFrame a)),
           s\<lparr>heap := (heap s)[a := df_head 1 (heap s ! a)]\<rparr>)
      | _ \<Rightarrow> (Inl (OtherException ''NameError''), s))"

text \<open>
  Code that reaches the store of the module and empties it:
  \<^verbatim>\<open>import sys; sys.modules['__main__'].data_handles.clear()\<close>.
\<close>

definition clear_store :: pycode where
  "clear_store local_vars s = (Inr local_vars, s\<lparr>data_handles := Map.empty\<rparr>)"

text \<open>The in-memory server after \<^verbatim>\<open>query_database('users')\<close> and
  \<^verbatim>\<open>query_database('orders')\<close> have drawn the tokens \<open>m1\<close> and \<open>m2\<close>.\<close>

definition mem_after_queries :: mem_state where
  "mem_after_queries = \<lparr>heap = [users, orders, users, orders],
                        sample_db = [''users'' \<mapsto> 0, ''orders'' \<mapsto> 1],
                        data_handles = [''m1'' \<mapsto> 2, ''m2'' \<mapsto> 3]\<rparr>"

text \<open>The generic server after \<^verbatim>\<open>query_database('users')\<close> has drawn the token \<open>g1\<close>.\<close>

definition gen_after_query :: mem_state where
  "gen_after_query = \<lparr>heap = [users, orders, users],
                      sample_db = [''users'' \<mapsto> 0, ''orders'' \<mapsto> 1],
                      data_handles = [''g1'' \<mapsto> 2]\<rparr>"

section \<open>Properties\<close>

subsection \<open>The handles table\<close>

lemma select_insert_same:
  "select_dataframe h (insert_or_replace h b tbl) = Some b"
  by (induction tbl) (auto simp: select_dataframe_def insert_or_replace_def)

lemma select_insert_other:
  "k \<noteq> h \<Longrightarrow> select_dataframe k (insert_or_replace h b tbl) = select_dataframe k tbl"
  by (induction tbl) (auto simp: select_dataframe_def insert_or_replace_def)

lemma load_handle_tbl [simp]: "handles_tbl (snd (load_handle h s)) = handles_tbl s"
  by (simp add: load_handle_def split: option.splits)

lemma load_handle_result:
  "fst (load_handle h s) = map_option pickle_loads (select_dataframe h (handles_tbl s))"
  by (simp add: load_handle_def split: option.splits)

lemma save_handle_tbl:
  "handles_tbl (save_handle h df s) = insert_or_replace h (pickle_dumps df) (handles_tbl s)"
  by (simp add: save_handle_def Let_def load_handle_def select_insert_same split: prod.splits option.splits)

lemma save_handle_trace:
  "trace (save_handle h df s) =
     trace s @ [SqlInsertOrReplace h (pickle_dumps df), SqlCommit, SqlSelectDataframe h, PrintVerified h]"
  by (simp add: save_handle_def Let_def load_handle_def select_insert_same split: prod.splits option.splits)

text \<open>
  Claim C5. Whatever the state and the token, \<^verbatim>\<open>save_handle(h, T)\<close> followed at once by
  \<^verbatim>\<open>load_handle(h)\<close> yields \<open>T\<close> itself (the same column labels in the same order and
  the same rows), and every \<^verbatim>\<open>save_handle\<close> ends with a read of the handle it has just
  written and committed, a read that finds the row.
\<close>

theorem save_then_load_roundtrip:
  "fst (load_handle h (save_handle h T s)) = Some T \<and>
   trace (save_handle h T s) =
     trace s @ [SqlInsertOrReplace h (pickle_dumps T), SqlCommit, SqlSelectDataframe h, PrintVerified h]"
  by (simp add: load_handle_result save_handle_tbl select_insert_same save_handle_trace pickle_dumps_def)

subsection \<open>The tools of the persistent server, step by step\<close>

lemmas tool_defs = query_database_def combine_columns_def join_dataframes_def select_columns_def
  filter_rows_def drop_columns_def remove_duplicates_def distinct_rows_def get_schema_def
  group_by_def

lemma step_tbl_cases:
  "handles_tbl (snd (step pd u c s)) = handles_tbl s \<or>
   (\<exists>t df. handles_tbl (snd (step pd u c s)) = insert_or_replace t (pickle_dumps df) (handles_tbl s))"
  by (cases c)
     (auto simp: tool_defs case_prod_unfold save_handle_tbl Let_def split: option.splits sum.splits)

lemma step_failed_tbl:
  "fst (step pd u c s) = Error e \<or> fst (step pd u c s) = Raised x \<Longrightarrow>
   handles_tbl (snd (step pd u c s)) = handles_tbl s"
  by (cases c)
     (auto simp: tool_defs case_prod_unfold save_handle_tbl Let_def
           split: option.splits sum.splits if_splits)

lemma step_token:
  "fst (step pd u c s) = Handle t \<Longrightarrow> t = (if is_combine c then hd (call_inputs c) else u)"
  by (cases c)
     (auto simp: tool_defs case_prod_unfold Let_def split: option.splits sum.splits if_splits)

lemma step_inputs_bound:
  "fst (step pd u c s) = Handle t \<Longrightarrow> h \<in> set (call_inputs c) \<Longrightarrow> bound h s"
  by (cases c)
     (auto simp: tool_defs case_prod_unfold Let_def bound_def load_handle_result
           split: option.splits sum.splits if_splits)

lemma step_bound_mono: "bound h s \<Longrightarrow> bound h (snd (step pd u c s))"
  using step_tbl_cases [of pd u c s]
  by (auto simp: bound_def) (metis select_insert_same select_insert_other)

lemma run_bound_mono: "bound h s \<Longrightarrow> bound h (run pd cs s)"
  by (induction cs arbitrary: s) (auto simp: step_bound_mono)

lemma bound_resolve: "bound h s \<longleftrightarrow> resolve h s \<noteq> None"
  by (simp add: bound_def resolve_def load_handle_result)

lemma resolve_save_same: "resolve h (save_handle h df s) = Some df"
  by (simp add: resolve_def load_handle_result save_handle_tbl select_insert_same pickle_dumps_def)

lemma resolve_load [simp]: "resolve k (snd (load_handle h s)) = resolve k s"
  by (simp add: resolve_def load_handle_result)

lemma example_server_resolve: "resolve ''h1'' example_server = Some users_srv"
  by (simp add: example_server_def resolve_def load_handle_result select_dataframe_def)

lemma two_handle_mem_simps:
  "data_handles (two_handle_mem l r) ''l'' = Some 0" "heap (two_handle_mem l r) ! 0 = l"
  "data_handles (two_handle_mem l r) ''r'' = Some (Suc 0)" "heap (two_handle_mem l r) ! Suc 0 = r"
  by (simp_all add: two_handle_mem_def)

lemma two_handle_server_simps:
  "resolve ''l'' (two_handle_server l r) = Some l" "resolve ''r'' (two_handle_server l r) = Some r"
  by (simp_all add: two_handle_server_def resolve_def load_handle_result select_dataframe_def)


subsection \<open>Rebinding and fresh tokens\<close>

lemma combine_columns_success:
  assumes "resolve h s = Some df" and "fst (combine_columns h c1 c2 new sep s) = Handle t"
  shows "t = h"
    and "resolve h (snd (combine_columns h c1 c2 new sep s)) =
           Some (set_column new (concat_columns (astype_str (column_values c1 df)) sep
                                                (astype_str (column_values c2 df))) df)"
  using assms
  by (auto simp: combine_columns_def combine_series_def case_prod_unfold Let_def
                 resolve_def[symmetric] resolve_save_same
           split: option.splits if_splits)

lemma length_concat_columns:
  "length (concat_columns (astype_str (column_values c1 df)) sep (astype_str (column_values c2 df)))
     = length (rows df)"
  by (simp add: concat_columns_def astype_str_def column_values_def)

lemma set_column_new:
  assumes "new \<notin> set (columns df)" and "length vs = length (rows df)"
  shows "columns (set_column new vs df) = columns df @ [new]"
    and "map butlast (rows (set_column new vs df)) = rows df"
    and "map last (rows (set_column new vs df)) = vs"
  using assms
  by (auto simp: set_column_def map_idI list_eq_iff_nth_eq)

text \<open>
  Claim C2. On the persistent server a successful \<^verbatim>\<open>combine_columns(h, ...)\<close> returns the
  token \<open>h\<close> it was given, and \<open>h\<close> then resolves to the prior table with the column
  \<open>new\<close> set to the combined strings: when the label is new the table is the prior one
  with that column added at the end. Every other tool (\<^verbatim>\<open>select_columns\<close>,
  \<^verbatim>\<open>filter_rows\<close>, \<^verbatim>\<open>drop_columns\<close>, \<^verbatim>\<open>join_dataframes\<close>, \<^verbatim>\<open>remove_duplicates\<close>,
  \<^verbatim>\<open>distinct_rows\<close>, \<^verbatim>\<open>get_schema\<close>, \<^verbatim>\<open>group_by\<close>, \<^verbatim>\<open>query_database\<close>), when it
  succeeds, returns the token that \<^verbatim>\<open>uuid4\<close> drew in the call, which differs from each of
  its input handles as long as the drawn token is not already a key of the store.
\<close>

theorem combine_rebinds_others_mint:
  "(resolve h s = Some df \<and> fst (combine_columns h c1 c2 new sep s) = Handle t \<longrightarrow>
      t = h \<and>
      resolve h (snd (combine_columns h c1 c2 new sep s)) =
        Some (set_column new (concat_columns (astype_str (column_values c1 df)) sep
                                             (astype_str (column_values c2 df))) df) \<and>
      (new \<notin> set (columns df) \<longrightarrow>
         (\<exists>df'. resolve h (snd (combine_columns h c1 c2 new sep s)) = Some df' \<and>
                columns df' = columns df @ [new] \<and>
                map butlast (rows df') = rows df \<and>
                map last (rows df') = concat_columns (astype_str (column_values c1 df)) sep
                                                     (astype_str (column_values c2 df))))) \<and>
   (\<not> is_combine c \<and> \<not> bound u s \<and> fst (step pd u c s) = Handle t' \<longrightarrow>
      t' = u \<and> t' \<notin> set (call_inputs c))"
proof -
  have rebind: "t = h \<and>
      resolve h (snd (combine_columns h c1 c2 new sep s)) =
        Some (set_column new (concat_columns (astype_str (column_values c1 df)) sep
                                             (astype_str (column_values c2 df))) df)"
    if "resolve h s = Some df" "fst (combine_columns h c1 c2 new sep s) = Handle t"
    using combine_columns_success [OF that] by simp
  have fresh: "t' = u \<and> t' \<notin> set (call_inputs c)"
    if "\<not> is_combine c" "\<not> bound u s" "fst (step pd u c s) = Handle t'"
  proof -
    from step_token [OF that(3)] that(1) have "t' = u" by simp
    moreover have "u \<notin> set (call_inputs c)"
      using step_inputs_bound [OF that(3)] that(2) by blast
    ultimately show ?thesis by simp
  qed
  show ?thesis
    using rebind fresh set_column_new [OF _ length_concat_columns] by auto
qed

theorem combine_rebinds_others_mint_witness:
  "resolve ''h1'' example_server = Some users_srv \<and>
   fst (combine_columns ''h1'' ''name'' ''city'' ''label'' '', '' example_server) = Handle ''h1'' \<and>
   ''label'' \<notin> set (columns users_srv) \<and>
   map_option columns
     (resolve ''h1'' (snd (combine_columns ''h1'' ''name'' ''city'' ''label'' '', '' example_server)))
     = Some [''user_id'', ''name'', ''city'', ''label''] \<and>
   \<not> bound ''h2'' example_server \<and>
   fst (step no_pandas ''h2'' (SelectColumns ''h1'' [''name'']) example_server) = Handle ''h2'' \<and>
   ''h2'' \<notin> set (call_inputs (SelectColumns ''h1'' [''name'']))"
proof -
  have a: "resolve ''h1'' example_server = Some users_srv" by (rule example_server_resolve)
  have b: "fst (combine_columns ''h1'' ''name'' ''city'' ''label'' '', '' example_server) = Handle ''h1''"
    by (simp add: example_server_def combine_columns_def combine_series_def repeated_def
                  positions_def load_handle_def select_dataframe_def has_column_def users_srv_def)
  have c: "''label'' \<notin> set (columns users_srv)" by (simp add: users_srv_def)
  have d: "\<not> bound ''h2'' example_server"
    by (simp add: bound_def example_server_def select_dataframe_def)
  have e: "fst (step no_pandas ''h2'' (SelectColumns ''h1'' [''name'']) example_server) = Handle ''h2''"
    by (simp add: example_server_def select_columns_def load_handle_def select_dataframe_def
                  users_srv_def)
  show ?thesis
    using combine_rebinds_others_mint [of "''h1''" example_server users_srv "''name''" "''city''"
        "''label''" "'', ''" "''h1''" "SelectColumns ''h1'' [''name'']" "''h2''" no_pandas "''h2''"]
      a b c d e
    by (auto simp: users_srv_def)
qed


subsection \<open>Duplicates\<close>

lemma keep_first_positions:
  "keep_first seen xs =
     map (\<lambda>i. xs ! i) (filter (\<lambda>i. xs ! i \<notin> set seen \<union> set (take i xs)) [0..<length xs])"
proof (induction xs arbitrary: seen)
  case Nil
  then show ?case by simp
next
  case (Cons x xs)
  let ?P = "\<lambda>sn i. xs ! i \<notin> set sn \<union> set (take i xs)"
  let ?Q = "\<lambda>i. (x # xs) ! i \<notin> set seen \<union> set (take i (x # xs))"
  have idx: "[0..<length (x # xs)] = 0 # map Suc [0..<length xs]"
    by (simp add: upt_conv_Cons map_Suc_upt del: upt_Suc)
  have shift: "filter ?Q (map Suc [0..<length xs]) = map Suc (filter (?P (x # seen)) [0..<length xs])"
    by (auto simp: filter_map o_def intro!: arg_cong [where f = "map Suc"] filter_cong)
  have tail: "map (\<lambda>i. (x # xs) ! i) (filter ?Q (map Suc [0..<length xs])) = keep_first (x # seen) xs"
    by (simp only: shift Cons.IH [of "x # seen"]) (simp add: o_def)
  show ?case
  proof (cases "x \<in> set seen")
    case True
    then have "set (x # seen) = set seen" by auto
    then have "keep_first (x # seen) xs = keep_first seen xs"
      by (simp only: Cons.IH [of "x # seen"] Cons.IH [of seen])
    with True tail show ?thesis
      by (simp only: idx) simp
  next
    case False
    with tail show ?thesis
      by (simp only: idx) simp
  qed
qed

lemma keep_first_earliest:
  "keep_first [] xs = map (\<lambda>i. xs ! i) (filter (\<lambda>i. \<forall>j<i. xs ! j \<noteq> xs ! i) [0..<length xs])"
proof -
  have "filter (\<lambda>i. xs ! i \<notin> set [] \<union> set (take i xs)) [0..<length xs] =
        filter (\<lambda>i. \<forall>j<i. xs ! j \<noteq> xs ! i) [0..<length xs]"
    by (rule filter_cong) (auto simp: in_set_conv_nth)
  then show ?thesis by (simp add: keep_first_positions [of "[]" xs])
qed

lemma positions_label: "p \<in> set (positions c cs) \<Longrightarrow> cs ! p = c"
  by (simp add: positions_def)

lemma positions_nonempty: "c \<in> set cs \<Longrightarrow> positions c cs \<noteq> []"
  by (auto simp: positions_def filter_empty_conv in_set_conv_nth)

lemma col_pos_nth: "c \<in> set cs \<Longrightarrow> col_pos c cs < length cs \<and> cs ! col_pos c cs = c"
  by (induction cs) auto

lemma filter_eq_upt: "k < n \<Longrightarrow> filter (\<lambda>i. i = k) [0..<n] = [k]"
  by (induction n) (auto simp: less_Suc_eq filter_empty_conv)

lemma positions_distinct:
  assumes "distinct cs" and "c \<in> set cs"
  shows "positions c cs = [col_pos c cs]"
proof -
  from col_pos_nth [OF assms(2)] have lt: "col_pos c cs < length cs" and at: "cs ! col_pos c cs = c"
    by simp_all
  have "cs ! i = c \<longleftrightarrow> i = col_pos c cs" if "i < length cs" for i
    using that lt at assms(1) by (auto simp: nth_eq_iff_index_eq)
  then have "filter (\<lambda>i. cs ! i = c) [0..<length cs] = filter (\<lambda>i. i = col_pos c cs) [0..<length cs]"
    by (intro filter_cong) auto
  also have "\<dots> = [col_pos c cs]"
    using lt by (rule filter_eq_upt)
  finally show ?thesis by (simp add: positions_def)
qed

lemma df_select_columns:
  "columns (df_select cols df) = concat (map (\<lambda>c. replicate (length (positions c (columns df))) c) cols)"
proof -
  have "map (\<lambda>p. columns df ! p) (positions c (columns df)) =
          replicate (length (positions c (columns df))) c" for c
    by (simp add: map_replicate_const [symmetric] positions_label cong: map_cong)
  then show ?thesis
    by (simp add: df_select_def Let_def map_concat o_def)
qed

lemma df_select_rows:
  "rows (df_select cols df) =
     map (\<lambda>r. map (\<lambda>p. r ! p) (concat (map (\<lambda>c. positions c (columns df)) cols))) (rows df)"
  by (simp add: df_select_def Let_def)

lemma df_select_distinct:
  assumes "distinct (columns df)" and "set cols \<subseteq> set (columns df)"
  shows "columns (df_select cols df) = cols"
    and "rows (df_select cols df) = map (\<lambda>r. map (\<lambda>c. r ! col_pos c (columns df)) cols) (rows df)"
proof -
  have ps: "concat (map (\<lambda>c. positions c (columns df)) cols) = map (\<lambda>c. col_pos c (columns df)) cols"
    using assms(2) by (induction cols) (simp_all add: positions_distinct [OF assms(1)])
  have "map (\<lambda>c. columns df ! col_pos c (columns df)) cols = cols"
    using assms(2) by (induction cols) (simp_all add: col_pos_nth)
  then show "columns (df_select cols df) = cols"
    by (simp add: df_select_def Let_def ps o_def)
  show "rows (df_select cols df) = map (\<lambda>r. map (\<lambda>c. r ! col_pos c (columns df)) cols) (rows df)"
    by (simp add: df_select_def Let_def ps o_def)
qed

lemma df_select_some_column:
  assumes "cols \<noteq> []" and "set cols \<subseteq> set (columns df)"
  shows "columns (df_select cols df) \<noteq> []"
proof -
  from assms obtain c cs where c: "cols = c # cs" "c \<in> set (columns df)" by (cases cols) auto
  with positions_nonempty [of c "columns df"] show ?thesis
    by (simp add: df_select_columns)
qed

lemma distinct_rows_subset:
  assumes "resolve h s = Some df" and "cols \<noteq> []" and "set cols \<subseteq> set (columns df)"
  shows "fst (distinct_rows u h (Some cols) s) = Handle u"
    and "resolve u (snd (distinct_rows u h (Some cols) s)) = Some (drop_duplicates (df_select cols df))"
proof -
  have "filter (\<lambda>col. col \<notin> set (columns df)) cols = []"
    using assms(3) by (auto simp: filter_empty_conv)
  then show "fst (distinct_rows u h (Some cols) s) = Handle u"
    and "resolve u (snd (distinct_rows u h (Some cols) s)) = Some (drop_duplicates (df_select cols df))"
    using assms(1,2)
    by (auto simp: distinct_rows_def case_prod_unfold Let_def resolve_def[symmetric] resolve_save_same
        split: option.splits)
qed

lemma select_columns_subset:
  assumes "resolve h s = Some df" and "set cols \<subseteq> set (columns df)"
  shows "fst (select_columns u h cols s) = Handle u"
    and "resolve u (snd (select_columns u h cols s)) = Some (df_select cols df)"
proof -
  have "filter (\<lambda>col. col \<notin> set (columns df)) cols = []"
    using assms(2) by (auto simp: filter_empty_conv)
  then show "fst (select_columns u h cols s) = Handle u"
    and "resolve u (snd (select_columns u h cols s)) = Some (df_select cols df)"
    using assms(1)
    by (auto simp: select_columns_def case_prod_unfold Let_def resolve_def[symmetric] resolve_save_same
        df_copy_def split: option.splits)
qed

lemma city_twice_selected:
  "resolve ''h2'' (snd (select_columns ''h2'' ''h1'' [''city'', ''city''] example_server)) = Some city_twice"
proof -
  have "set [''city'', ''city''] \<subseteq> set (columns users_srv)" by (simp add: users_srv_def)
  from select_columns_subset(2) [OF example_server_resolve this, of "''h2''"]
  show ?thesis
    by (simp add: df_select_def positions_def users_srv_def city_twice_def)
qed

text \<open>
  Claim C6, as amended. Given a non-empty list of labels that all occur in the table bound
  to the handle, \<^verbatim>\<open>distinct_rows\<close> first projects the table to the columns that carry the
  listed labels, label by label in the listed order, and then drops every projected row
  that equals an earlier projected row. The new handle resolves to a table with the
  projected columns only; its rows are the projections of the input rows at the positions
  where the projection occurs for the first time, in input order. When no two columns of
  the input carry the same label, the columns of the result are exactly the listed ones.
\<close>

theorem distinct_rows_projects_then_dedupes:
  assumes "resolve h s = Some df" and "cols \<noteq> []" and "set cols \<subseteq> set (columns df)"
  shows "fst (distinct_rows u h (Some cols) s) = Handle u \<and>
         (\<exists>out. resolve u (snd (distinct_rows u h (Some cols) s)) = Some out \<and>
                columns out = columns (df_select cols df) \<and>
                rows out = keep_first [] (rows (df_select cols df)) \<and>
                rows out = map (\<lambda>i. rows (df_select cols df) ! i)
                             (filter (\<lambda>i. \<forall>j<i. rows (df_select cols df) ! j \<noteq> rows (df_select cols df) ! i)
                                     [0..<length (rows df)])) \<and>
         columns (df_select cols df) =
           concat (map (\<lambda>c. replicate (length (positions c (columns df))) c) cols) \<and>
         rows (df_select cols df) =
           map (\<lambda>r. map (\<lambda>p. r ! p) (concat (map (\<lambda>c. positions c (columns df)) cols))) (rows df) \<and>
         (distinct (columns df) \<longrightarrow>
            columns (df_select cols df) = cols \<and>
            rows (df_select cols df) = map (\<lambda>r. map (\<lambda>c. r ! col_pos c (columns df)) cols) (rows df))"
proof -
  have len: "length (rows (df_select cols df)) = length (rows df)"
    by (simp add: df_select_rows)
  have ne: "columns (df_select cols df) \<noteq> []"
    by (rule df_select_some_column [OF assms(2,3)])
  have out: "\<exists>out. resolve u (snd (distinct_rows u h (Some cols) s)) = Some out \<and>
                columns out = columns (df_select cols df) \<and>
                rows out = keep_first [] (rows (df_select cols df)) \<and>
                rows out = map (\<lambda>i. rows (df_select cols df) ! i)
                             (filter (\<lambda>i. \<forall>j<i. rows (df_select cols df) ! j \<noteq> rows (df_select cols df) ! i)
                                     [0..<length (rows df)])"
    using distinct_rows_subset(2) [OF assms, of u] ne
          keep_first_earliest [of "rows (df_select cols df)"]
    by (simp add: drop_duplicates_def len)
  show ?thesis
    using distinct_rows_subset(1) [OF assms, of u] out df_select_columns [of cols df]
          df_select_rows [of cols df] df_select_distinct [OF _ assms(3)]
    by blast
qed

theorem distinct_rows_projects_then_dedupes_witness:
  "resolve ''h1'' example_server = Some users_srv \<and> [''city''] \<noteq> [] \<and>
   set [''city''] \<subseteq> set (columns users_srv) \<and> distinct (columns users_srv) \<and>
   fst (distinct_rows ''h2'' ''h1'' (Some [''city'']) example_server) = Handle ''h2'' \<and>
   resolve ''h2'' (snd (distinct_rows ''h2'' ''h1'' (Some [''city'']) example_server)) =
     Some \<lparr>columns = [''city''],
           rows = [[StrV ''New York''], [StrV ''London''], [StrV ''Paris''], [StrV ''Tokyo'']]\<rparr> \<and>
   resolve ''h2'' (snd (select_columns ''h2'' ''h1'' [''city'', ''city''] example_server)) =
     Some city_twice \<and>
   columns city_twice = [''city'', ''city''] \<and>
   resolve ''h3'' (snd (distinct_rows ''h3'' ''h2'' (Some [''city''])
                          (snd (select_columns ''h2'' ''h1'' [''city'', ''city''] example_server)))) =
     Some \<lparr>columns = [''city'', ''city''],
           rows = [[StrV ''New York'', StrV ''New York''], [StrV ''London'', StrV ''London''],
                   [StrV ''Paris'', StrV ''Paris''], [StrV ''Tokyo'', StrV ''Tokyo'']]\<rparr>"
proof -
  let ?s2 = "snd (select_columns ''h2'' ''h1'' [''city'', ''city''] example_server)"
  have a: "set [''city''] \<subseteq> set (columns users_srv)" and d: "distinct (columns users_srv)"
    and a2: "set [''city''] \<subseteq> set (columns city_twice)"
    and c2: "columns city_twice = [''city'', ''city'']"
    by (simp_all add: users_srv_def city_twice_def)
  have b: "[''city''] \<noteq> ([] :: string list)" by simp
  have sel: "df_select [''city''] users_srv =
               \<lparr>columns = [''city''],
                rows = [[StrV ''New York''], [StrV ''London''], [StrV ''Paris''], [StrV ''London''],
                        [StrV ''Tokyo''], [StrV ''New York'']]\<rparr>"
    and sel2: "df_select [''city''] city_twice = city_twice"
    by (simp_all add: df_select_def positions_def users_srv_def city_twice_def)
  from distinct_rows_projects_then_dedupes [OF example_server_resolve b a, of "''h2''"]
  obtain out where o: "resolve ''h2'' (snd (distinct_rows ''h2'' ''h1'' (Some [''city'']) example_server)) = Some out"
      "columns out = columns (df_select [''city''] users_srv)"
      "rows out = keep_first [] (rows (df_select [''city''] users_srv))"
      and f: "fst (distinct_rows ''h2'' ''h1'' (Some [''city'']) example_server) = Handle ''h2''"
    by blast
  from o(2,3) have "out = \<lparr>columns = [''city''],
           rows = [[StrV ''New York''], [StrV ''London''], [StrV ''Paris''], [StrV ''Tokyo'']]\<rparr>"
    by (cases out) (simp add: sel)
  with o(1) have r1: "resolve ''h2'' (snd (distinct_rows ''h2'' ''h1'' (Some [''city'']) example_server)) =
     Some \<lparr>columns = [''city''],
           rows = [[StrV ''New York''], [StrV ''London''], [StrV ''Paris''], [StrV ''Tokyo'']]\<rparr>"
    by simp
  from distinct_rows_projects_then_dedupes [OF city_twice_selected b a2, of "''h3''"]
  obtain out2 where o2: "resolve ''h3'' (snd (distinct_rows ''h3'' ''h2'' (Some [''city'']) ?s2)) = Some out2"
      "columns out2 = columns (df_select [''city''] city_twice)"
      "rows out2 = keep_first [] (rows (df_select [''city''] city_twice))"
    by blast
  from o2(2,3) have "out2 = \<lparr>columns = [''city'', ''city''],
           rows = [[StrV ''New York'', StrV ''New York''], [StrV ''London'', StrV ''London''],
                   [StrV ''Paris'', StrV ''Paris''], [StrV ''Tokyo'', StrV ''Tokyo'']]\<rparr>"
    by (cases out2) (simp add: sel2, simp add: city_twice_def)
  with o2(1) have r2: "resolve ''h3'' (snd (distinct_rows ''h3'' ''h2'' (Some [''city'']) ?s2)) =
     Some \<lparr>columns = [''city'', ''city''],
           rows = [[StrV ''New York'', StrV ''New York''], [StrV ''London'', StrV ''London''],
                   [StrV ''Paris'', StrV ''Paris''], [StrV ''Tokyo'', StrV ''Tokyo'']]\<rparr>"
    by simp
  from example_server_resolve b a d f r1 city_twice_selected c2 r2 show ?thesis
    by simp
qed

text \<open>
  The claim as first stated has the kept rows retain the full set of columns of the input.
  On the users table, \<^verbatim>\<open>distinct_rows(h1, ['city'])\<close> yields a table whose only column is
  \<open>city\<close>.
\<close>

theorem distinct_rows_drops_columns:
  "resolve ''h1'' example_server = Some users_srv \<and>
   columns users_srv = [''user_id'', ''name'', ''city''] \<and>
   fst (distinct_rows ''h2'' ''h1'' (Some [''city'']) example_server) = Handle ''h2'' \<and>
   map_option columns (resolve ''h2'' (snd (distinct_rows ''h2'' ''h1'' (Some [''city'']) example_server)))
     = Some [''city''] \<and>
   map_option columns (resolve ''h2'' (snd (distinct_rows ''h2'' ''h1'' (Some [''city'']) example_server)))
     \<noteq> Some (columns users_srv)"
proof -
  have a: "set [''city''] \<subseteq> set (columns users_srv)" by (simp add: users_srv_def)
  have b: "[''city''] \<noteq> ([] :: string list)" by simp
  have c: "columns (drop_duplicates (df_select [''city''] users_srv)) = [''city'']"
    by (simp add: drop_duplicates_def df_select_def positions_def users_srv_def)
  show ?thesis
    using distinct_rows_subset [OF example_server_resolve b a, of "''h2''"] example_server_resolve c
    by (simp add: users_srv_def)
qed

subsection \<open>Missing columns\<close>

text \<open>
  Claim C3, as amended. When a requested column is absent from the table bound to the
  handle, \<^verbatim>\<open>select_columns\<close>, and \<^verbatim>\<open>distinct_rows\<close> given a non-empty list, answer with
  an error that lists exactly the requested labels that are absent, in the order of the
  request; \<^verbatim>\<open>group_by\<close> lists every absent group column and, only when no group column
  is absent, every absent aggregation column; \<^verbatim>\<open>combine_columns\<close> answers with an error
  that does not tell which source column is missing: the text of the persistent server
  names no column, the text of the in-memory server names both source columns. In each
  case nothing is written to the store.
\<close>

theorem missing_columns_reported:
  assumes "resolve h s = Some df"
  shows
   "(filter (\<lambda>c. c \<notin> set (columns df)) cols \<noteq> [] \<longrightarrow>
       fst (select_columns u h cols s) = Error (ColumnsNotFound (filter (\<lambda>c. c \<notin> set (columns df)) cols)) \<and>
       handles_tbl (snd (select_columns u h cols s)) = handles_tbl s) \<and>
    (cols \<noteq> [] \<and> filter (\<lambda>c. c \<notin> set (columns df)) cols \<noteq> [] \<longrightarrow>
       fst (distinct_rows u h (Some cols) s) = Error (ColumnsNotFound (filter (\<lambda>c. c \<notin> set (columns df)) cols)) \<and>
       handles_tbl (snd (distinct_rows u h (Some cols) s)) = handles_tbl s) \<and>
    (filter (\<lambda>c. c \<notin> set (columns df)) gs \<noteq> [] \<longrightarrow>
       fst (group_by pd u h gs ad s) = Error (GroupColumnsNotFound (filter (\<lambda>c. c \<notin> set (columns df)) gs)) \<and>
       handles_tbl (snd (group_by pd u h gs ad s)) = handles_tbl s) \<and>
    (filter (\<lambda>c. c \<notin> set (columns df)) gs' = [] \<and>
     filter (\<lambda>c. c \<notin> set (columns df)) (map fst ad') \<noteq> [] \<longrightarrow>
       fst (group_by pd u h gs' ad' s) =
         Error (AggColumnsNotFound (filter (\<lambda>c. c \<notin> set (columns df)) (map fst ad'))) \<and>
       handles_tbl (snd (group_by pd u h gs' ad' s)) = handles_tbl s) \<and>
    (c1 \<notin> set (columns df) \<or> c2 \<notin> set (columns df) \<longrightarrow>
       fst (combine_columns h c1 c2 new sep s) = Error ColumnsNotFoundUnnamed \<and>
       columns_named ColumnsNotFoundUnnamed = [] \<and>
       handles_tbl (snd (combine_columns h c1 c2 new sep s)) = handles_tbl s) \<and>
    (data_handles m hm = Some a \<and>
     (c1 \<notin> set (columns (heap m ! a)) \<or> c2 \<notin> set (columns (heap m ! a))) \<longrightarrow>
       combine_columns_mem hm c1 c2 new sep m = (Error (CombineColumnsNotFound c1 c2 hm), m) \<and>
       columns_named (CombineColumnsNotFound c1 c2 hm) = [c1, c2])"
  using assms
  by (auto simp: select_columns_def distinct_rows_def group_by_def combine_columns_def
        combine_columns_mem_def has_column_def
        case_prod_unfold Let_def resolve_def split: option.splits)

text \<open>
  The claim as first stated has every such tool list the missing names. On the users table,
  \<^verbatim>\<open>combine_columns(h1, 'zip', 'name', ...)\<close> answers \<^verbatim>\<open>Error: Column(s) not found.\<close>,
  a text without the missing label \<open>zip\<close>.
\<close>

theorem combine_columns_names_no_column:
  "resolve ''h1'' example_server = Some users_srv \<and>
   ''zip'' \<notin> set (columns users_srv) \<and>
   fst (combine_columns ''h1'' ''zip'' ''name'' ''label'' '' '' example_server) = Error ColumnsNotFoundUnnamed \<and>
   ''zip'' \<notin> set (columns_named ColumnsNotFoundUnnamed)"
  using example_server_resolve
  by (simp add: combine_columns_def case_prod_unfold resolve_def has_column_def)
     (simp add: users_srv_def)

theorem missing_columns_reported_witness:
  "resolve ''h1'' example_server = Some users_srv \<and>
   filter (\<lambda>c. c \<notin> set (columns users_srv)) [''name'', ''zip'', ''age''] = [''zip'', ''age''] \<and>
   fst (select_columns ''h2'' ''h1'' [''name'', ''zip'', ''age''] example_server) = Error (ColumnsNotFound [''zip'', ''age'']) \<and>
   fst (distinct_rows ''h2'' ''h1'' (Some [''name'', ''zip'', ''age'']) example_server) = Error (ColumnsNotFound [''zip'', ''age'']) \<and>
   fst (group_by no_pandas ''h2'' ''h1'' [''zip'', ''city''] [(''age'', ''sum'')] example_server) = Error (GroupColumnsNotFound [''zip'']) \<and>
   fst (group_by no_pandas ''h2'' ''h1'' [''city''] [(''age'', ''sum''), (''user_id'', ''count'')] example_server) = Error (AggColumnsNotFound [''age'']) \<and>
   fst (combine_columns ''h1'' ''zip'' ''name'' ''label'' '' '' example_server) = Error ColumnsNotFoundUnnamed \<and>
   handles_tbl (snd (combine_columns ''h1'' ''zip'' ''name'' ''label'' '' '' example_server)) = handles_tbl example_server \<and>
   data_handles (two_handle_mem users orders) ''l'' = Some 0 \<and>
   combine_columns_mem ''l'' ''zip'' ''name'' ''label'' '' '' (two_handle_mem users orders)
     = (Error (CombineColumnsNotFound ''zip'' ''name'' ''l''), two_handle_mem users orders)"
proof -
  have c: "columns users_srv = [''user_id'', ''name'', ''city'']" by (simp add: users_srv_def)
  have d: "columns users = [''user_id'', ''name'', ''city'']" by (simp add: users_def)
  show ?thesis
    using missing_columns_reported [OF example_server_resolve, of "[''name'', ''zip'', ''age'']" "''h2''"
        "[''zip'', ''city'']" no_pandas "[(''age'', ''sum'')]" "[''city'']" "[(''age'', ''sum''), (''user_id'', ''count'')]"
        "''zip''" "''name''" "''label''" "'' ''" "two_handle_mem users orders" "''l''" 0]
      example_server_resolve
    by (simp add: c d two_handle_mem_simps)
qed


subsection \<open>Joins\<close>



lemma pd_merge_invalid: "how \<notin> set valid_joins \<Longrightarrow> pd_merge l r c how = Inl (MergeError how)"
  by (simp add: pd_merge_def Let_def)









lemma join_srv_unknown_kind_raises:
  assumes "resolve h1 s = Some l" and "resolve h2 s = Some r"
      and "c \<in> set (columns l)" and "c \<in> set (columns r)" and "how \<notin> set valid_joins"
  shows "fst (join_dataframes u h1 h2 c how s) = Raised (MergeError how)"
  using assms pd_merge_invalid [OF assms(5)]
  by (simp add: join_dataframes_def case_prod_unfold Let_def resolve_def[symmetric] has_column_def)

lemma join_mem_errors:
  assumes "data_handles s h1 = Some a1" and "data_handles s h2 = Some a2"
  shows "c \<notin> set (columns (heap s ! a1)) \<or> c \<notin> set (columns (heap s ! a2)) \<Longrightarrow>
           join_dataframes_mem u h1 h2 c how s = (Error (JoinColumnNotFound c), s)"
    and "c \<in> set (columns (heap s ! a1)) \<Longrightarrow> c \<in> set (columns (heap s ! a2)) \<Longrightarrow>
           how \<notin> set valid_joins \<Longrightarrow>
           join_dataframes_mem u h1 h2 c how s = (Error (InvalidJoinType how), s)"
  using assms by (auto simp: join_dataframes_mem_def Let_def)

lemma join_srv_missing_column:
  assumes "resolve h1 s = Some l" and "resolve h2 s = Some r"
      and "c \<notin> set (columns l) \<or> c \<notin> set (columns r)"
  shows "fst (join_dataframes u h1 h2 c how s) = Error JoinColumnNotFoundUnnamed"
    and "handles_tbl (snd (join_dataframes u h1 h2 c how s)) = handles_tbl s"
  using assms
  by (auto simp: join_dataframes_def case_prod_unfold Let_def resolve_def[symmetric] has_column_def)

lemma join_srv_unknown_kind_tbl:
  assumes "how \<notin> set valid_joins"
  shows "handles_tbl (snd (join_dataframes u h1 h2 c how s)) = handles_tbl s"
  using pd_merge_invalid [OF assms]
  by (simp add: join_dataframes_def case_prod_unfold Let_def)

text \<open>
  Claim C4, on both servers. With both handles bound: when the join column is absent from
  either table, each server returns its column-not-found error value, whatever the join
  kind. When the column is present in both tables and the join kind is none of
  \<open>left\<close>, \<open>right\<close>, \<open>outer\<close>, \<open>inner\<close>, the in-memory server returns the error value
  for an invalid join type; the persistent server has no such check: it hands the kind to
  \<^verbatim>\<open>pd.merge\<close>, and the exception raised there leaves the tool. Neither writes to the
  store.
\<close>

theorem join_kind_unchecked_on_server:
  assumes "how \<notin> set valid_joins"
  shows "(resolve h1 s = Some l \<and> resolve h2 s = Some r \<and>
          c \<in> set (columns l) \<and> c \<in> set (columns r) \<longrightarrow>
            fst (join_dataframes u h1 h2 c how s) = Raised (MergeError how) \<and>
            handles_tbl (snd (join_dataframes u h1 h2 c how s)) = handles_tbl s) \<and>
         (data_handles m k1 = Some a1 \<and> data_handles m k2 = Some a2 \<and>
          c \<in> set (columns (heap m ! a1)) \<and> c \<in> set (columns (heap m ! a2)) \<longrightarrow>
            join_dataframes_mem u k1 k2 c how m = (Error (InvalidJoinType how), m)) \<and>
         (resolve h1 s = Some l \<and> resolve h2 s = Some r \<and>
          (c' \<notin> set (columns l) \<or> c' \<notin> set (columns r)) \<longrightarrow>
            fst (join_dataframes u h1 h2 c' how' s) = Error JoinColumnNotFoundUnnamed \<and>
            handles_tbl (snd (join_dataframes u h1 h2 c' how' s)) = handles_tbl s) \<and>
         (data_handles m k1 = Some a1 \<and> data_handles m k2 = Some a2 \<and>
          (c' \<notin> set (columns (heap m ! a1)) \<or> c' \<notin> set (columns (heap m ! a2))) \<longrightarrow>
            join_dataframes_mem u k1 k2 c' how' m = (Error (JoinColumnNotFound c'), m))"
  using join_srv_unknown_kind_raises [OF _ _ _ _ assms, of h1 s l h2 r c u]
        join_srv_unknown_kind_tbl [OF assms, of u h1 h2 c s]
        join_mem_errors(2) [of m k1 a1 k2 a2 c how u]
        join_mem_errors(1) [of m k1 a1 k2 a2 c' u how']
        join_srv_missing_column [of h1 s l h2 r c' u how'] assms
  by auto

text \<open>The failing input: users joined with orders on \<open>user_id\<close>, join kind \<open>sideways\<close>.\<close>

theorem join_with_unknown_kind:
  "''sideways'' \<notin> set valid_joins \<and>
   resolve ''l'' (two_handle_server users_srv orders) = Some users_srv \<and>
   resolve ''r'' (two_handle_server users_srv orders) = Some orders \<and>
   ''user_id'' \<in> set (columns users_srv) \<and> ''user_id'' \<in> set (columns orders) \<and>
   fst (join_dataframes ''j'' ''l'' ''r'' ''user_id'' ''sideways'' (two_handle_server users_srv orders)) =
     Raised (MergeError ''sideways'') \<and>
   data_handles (two_handle_mem users orders) ''l'' = Some 0 \<and>
   data_handles (two_handle_mem users orders) ''r'' = Some (Suc 0) \<and>
   join_dataframes_mem ''j'' ''l'' ''r'' ''user_id'' ''sideways'' (two_handle_mem users orders) =
     (Error (InvalidJoinType ''sideways''), two_handle_mem users orders) \<and>
   ''zip'' \<notin> set (columns users_srv) \<and>
   fst (join_dataframes ''j'' ''l'' ''r'' ''zip'' ''inner'' (two_handle_server users_srv orders)) =
     Error JoinColumnNotFoundUnnamed \<and>
   join_dataframes_mem ''j'' ''l'' ''r'' ''zip'' ''inner'' (two_handle_mem users orders) =
     (Error (JoinColumnNotFound ''zip''), two_handle_mem users orders)"
proof -
  have v: "''sideways'' \<notin> set valid_joins" by (simp add: valid_joins_def)
  have c: "''user_id'' \<in> set (columns users_srv)" "''user_id'' \<in> set (columns orders)"
     "''user_id'' \<in> set (columns users)" "''zip'' \<notin> set (columns users_srv)"
     "''zip'' \<notin> set (columns users)"
    by (simp_all add: users_srv_def orders_def users_def)
  show ?thesis
    using join_kind_unchecked_on_server [OF v, of "''l''" "two_handle_server users_srv orders" users_srv
        "''r''" orders "''user_id''" "''j''" "two_handle_mem users orders" "''l''" 0 "''r''" "Suc 0"
        "''zip''" "''inner''"]
      v c two_handle_server_simps [of users_srv orders] two_handle_mem_simps [of users orders]
    by simp
qed







subsection \<open>Row counts of rendered tables\<close>

lemma materialize_default:
  "n = OtherArg \<or> (\<exists>i. n = IntArg i \<and> i \<le> 0) \<Longrightarrow>
   materialize_dataframe io h fmt n s = materialize_dataframe io h fmt (IntArg 5) s"
  by (auto simp: materialize_dataframe_def split: option.splits)

text \<open>
  Claim C7, as amended. For a bound handle, \<^verbatim>\<open>materialize_dataframe\<close> called with a row
  count that is not an integer, or is zero or negative, behaves as when called with 5; a
  format outside the seven known ones gives the error value for an invalid format;
  \<^verbatim>\<open>full_string\<close> shows the first 1000 rows of the table at most, whatever \<open>n\<close> is. The
  previews that take \<open>n\<close> use a positive \<open>n\<close> as it is given, with no cap:
  \<^verbatim>\<open>head_string\<close> shows the first \<open>n\<close> rows, \<^verbatim>\<open>tail_string\<close> the last \<open>n\<close> rows, and
  \<^verbatim>\<open>sample_string\<close> a sample for which pandas is asked \<open>n\<close> rows, or as many as the
  table has when it has fewer. The cap of the requested count at 1000 is in
  \<^verbatim>\<open>get_top_n_rows\<close> of \<^verbatim>\<open>mcp_handles/df_abstractions.py\<close>, which answers a count of
  zero or less with an error value instead of a default.
\<close>

theorem materialize_row_counts:
  assumes "data_handles s h = Some a"
  shows
    "(n = OtherArg \<or> (\<exists>i. n = IntArg i \<and> i \<le> 0) \<longrightarrow>
        materialize_dataframe io h fmt n s = materialize_dataframe io h fmt (IntArg 5) s) \<and>
     (fmt' \<notin> {''head_string'', ''tail_string'', ''sample_string'', ''full_string'',
                ''json_records'', ''json_split'', ''csv''} \<longrightarrow>
        materialize_dataframe io h fmt' n s = TextError (InvalidFormat fmt')) \<and>
     (\<forall>out. materialize_dataframe io h ''full_string'' n s = Text out \<longrightarrow>
        rows (rendered_frame out) = take 1000 (rows (heap s ! a)) \<and>
        length (rows (rendered_frame out)) \<le> 1000) \<and>
     (\<forall>out i. 0 < i \<and> materialize_dataframe io h ''head_string'' (IntArg i) s = Text out \<longrightarrow>
        rows (rendered_frame out) = take (nat i) (rows (heap s ! a)) \<and>
        length (rows (rendered_frame out)) = min (nat i) (length (rows (heap s ! a)))) \<and>
     (\<forall>out i. 0 < i \<and> materialize_dataframe io h ''tail_string'' (IntArg i) s = Text out \<longrightarrow>
        rows (rendered_frame out) =
          drop (length (rows (heap s ! a)) - nat i) (rows (heap s ! a)) \<and>
        length (rows (rendered_frame out)) = min (nat i) (length (rows (heap s ! a)))) \<and>
     (\<forall>out i. 0 < i \<and> materialize_dataframe io h ''sample_string'' (IntArg i) s = Text out \<longrightarrow>
        rendered_frame out =
          df_sample io (min (nat i) (length (rows (heap s ! a)))) (heap s ! a)) \<and>
     (\<forall>out. materialize_dataframe io h ''head_string'' (IntArg 0) s = Text out \<longrightarrow>
        rows (rendered_frame out) = take 5 (rows (heap s ! a))) \<and>
     (\<forall>out i. 0 < i \<and> get_top_n_rows io h (IntArg i) s = Text out \<longrightarrow>
        rows (rendered_frame out) = take (min (nat i) 1000) (rows (heap s ! a)) \<and>
        length (rows (rendered_frame out)) \<le> 1000) \<and>
     (\<forall>i. i \<le> 0 \<longrightarrow> get_top_n_rows io h (IntArg i) s = TextError NotPositiveInteger)"
proof -
  have full: "rows (rendered_frame out) = take 1000 (rows (heap s ! a)) \<and>
        length (rows (rendered_frame out)) \<le> 1000"
    if "materialize_dataframe io h ''full_string'' n s = Text out" for out
    using that assms
    by (auto simp: materialize_dataframe_def Let_def len_df_def df_head_def
             split: option.splits if_splits pyarg.splits)
  have head: "rows (rendered_frame out) = take (nat i) (rows (heap s ! a)) \<and>
        length (rows (rendered_frame out)) = min (nat i) (length (rows (heap s ! a)))"
    if "0 < i \<and> materialize_dataframe io h ''head_string'' (IntArg i) s = Text out" for out i
    using that assms
    by (auto simp: materialize_dataframe_def Let_def df_head_def split: option.splits)
  have tail: "rows (rendered_frame out) = drop (length (rows (heap s ! a)) - nat i) (rows (heap s ! a)) \<and>
        length (rows (rendered_frame out)) = min (nat i) (length (rows (heap s ! a)))"
    if "0 < i \<and> materialize_dataframe io h ''tail_string'' (IntArg i) s = Text out" for out i
    using that assms
    by (auto simp: materialize_dataframe_def Let_def df_tail_def split: option.splits)
  have sample: "rendered_frame out = df_sample io (min (nat i) (length (rows (heap s ! a)))) (heap s ! a)"
    if "0 < i \<and> materialize_dataframe io h ''sample_string'' (IntArg i) s = Text out" for out i
    using that assms
    by (auto simp: materialize_dataframe_def Let_def len_df_def split: option.splits)
  have head0: "rows (rendered_frame out) = take 5 (rows (heap s ! a))"
    if "materialize_dataframe io h ''head_string'' (IntArg 0) s = Text out" for out
    using that assms
    by (auto simp: materialize_dataframe_def Let_def df_head_def split: option.splits)
  have top: "rows (rendered_frame out) = take (min (nat i) 1000) (rows (heap s ! a)) \<and>
        length (rows (rendered_frame out)) \<le> 1000"
    if "0 < i \<and> get_top_n_rows io h (IntArg i) s = Text out" for out i
    using that assms
    by (auto simp: get_top_n_rows_def Let_def df_head_def min_def split: option.splits if_splits)
  have inv: "materialize_dataframe io h fmt' n s = TextError (InvalidFormat fmt')"
    if "fmt' \<notin> {''head_string'', ''tail_string'', ''sample_string'', ''full_string'',
                ''json_records'', ''json_split'', ''csv''}"
    using that assms by (simp add: materialize_dataframe_def Let_def)
  have neg: "get_top_n_rows io h (IntArg i) s = TextError NotPositiveInteger" if "i \<le> 0" for i
    using that assms by (simp add: get_top_n_rows_def)
  show ?thesis
    using materialize_default [of n io h fmt s] full head tail sample head0 top inv neg by blast
qed

lemma upt_5: "[0..<5] = [0, 1, 2, 3, 4]"
  by (simp add: eval_nat_numeral)

lemma long_table_rows:
  "length (rows long_table) = 1200" "len_df long_table = 1200"
  "rows (df_head 5 long_table) = [[IntV 0], [IntV 1], [IntV 2], [IntV 3], [IntV 4]]"
  "length (rows (df_head 1000 long_table)) = 1000"
  "length (rows (df_head 1001 long_table)) = 1001"
  "length (rows (df_head 1100 long_table)) = 1100"
  "length (rows (df_tail 1100 long_table)) = 1100"
  "hd (rows (df_tail 1100 long_table)) = [IntV 100]"
  by (simp_all add: long_table_def len_df_def df_head_def df_tail_def take_map drop_map hd_map upt_5)

theorem materialize_row_counts_witness:
  "data_handles (two_handle_mem long_table users) ''l'' = Some 0 \<and>
   length (rows long_table) = 1200 \<and>
   materialize_dataframe quiet_io ''l'' ''head_string'' (IntArg (- 3)) (two_handle_mem long_table users) =
     materialize_dataframe quiet_io ''l'' ''head_string'' (IntArg 5) (two_handle_mem long_table users) \<and>
   materialize_dataframe quiet_io ''l'' ''head_string'' (IntArg (- 3)) (two_handle_mem long_table users) =
     Text (ToString (df_head 5 long_table)) \<and>
   rows (df_head 5 long_table) = [[IntV 0], [IntV 1], [IntV 2], [IntV 3], [IntV 4]] \<and>
   materialize_dataframe quiet_io ''l'' ''head_string'' OtherArg (two_handle_mem long_table users) =
     Text (ToString (df_head 5 long_table)) \<and>
   materialize_dataframe quiet_io ''l'' ''xml'' (IntArg (- 3)) (two_handle_mem long_table users) =
     TextError (InvalidFormat ''xml'') \<and>
   materialize_dataframe quiet_io ''l'' ''full_string'' (IntArg (- 3)) (two_handle_mem long_table users) =
     Text (ToStringTruncated (df_head 1000 long_table) 1000) \<and>
   length (rows (df_head 1000 long_table)) = 1000 \<and>
   materialize_dataframe quiet_io ''l'' ''head_string'' (IntArg 1100) (two_handle_mem long_table users) =
     Text (ToString (df_head 1100 long_table)) \<and>
   length (rows (df_head 1100 long_table)) = 1100 \<and>
   materialize_dataframe quiet_io ''l'' ''tail_string'' (IntArg 1100) (two_handle_mem long_table users) =
     Text (ToString (df_tail 1100 long_table)) \<and>
   length (rows (df_tail 1100 long_table)) = 1100 \<and>
   hd (rows (df_tail 1100 long_table)) = [IntV 100] \<and>
   materialize_dataframe quiet_io ''l'' ''sample_string'' (IntArg 1100) (two_handle_mem long_table users) =
     Text (ToString (df_sample quiet_io 1100 long_table)) \<and>
   get_top_n_rows quiet_io ''l'' (IntArg 2000) (two_handle_mem long_table users) =
     Text (ToString (df_head 1000 long_table)) \<and>
   get_top_n_rows quiet_io ''l'' (IntArg 0) (two_handle_mem long_table users) =
     TextError NotPositiveInteger"
proof -
  have a: "data_handles (two_handle_mem long_table users) ''l'' = Some 0"
    by (rule two_handle_mem_simps)
  have q: "raises quiet_io r = None" for r by (simp add: quiet_io_def)
  have e: "materialize_dataframe quiet_io ''l'' ''head_string'' (IntArg 5) (two_handle_mem long_table users) =
             Text (ToString (df_head 5 long_table))"
          "materialize_dataframe quiet_io ''l'' ''head_string'' OtherArg (two_handle_mem long_table users) =
             Text (ToString (df_head 5 long_table))"
          "materialize_dataframe quiet_io ''l'' ''full_string'' (IntArg (- 3)) (two_handle_mem long_table users) =
             Text (ToStringTruncated (df_head 1000 long_table) 1000)"
          "materialize_dataframe quiet_io ''l'' ''head_string'' (IntArg 1100) (two_handle_mem long_table users) =
             Text (ToString (df_head 1100 long_table))"
          "materialize_dataframe quiet_io ''l'' ''tail_string'' (IntArg 1100) (two_handle_mem long_table users) =
             Text (ToString (df_tail 1100 long_table))"
          "materialize_dataframe quiet_io ''l'' ''sample_string'' (IntArg 1100) (two_handle_mem long_table users) =
             Text (ToString (df_sample quiet_io 1100 long_table))"
          "get_top_n_rows quiet_io ''l'' (IntArg 2000) (two_handle_mem long_table users) =
             Text (ToString (df_head 1000 long_table))"
    by (simp_all add: materialize_dataframe_def get_top_n_rows_def two_handle_mem_simps q
          Let_def long_table_rows(2))
  show ?thesis
    using materialize_row_counts [OF a, of "IntArg (- 3)" quiet_io "''head_string''" "''xml''"] a e
      long_table_rows
    by simp
qed

text \<open>
  The claim as first stated caps the head-like previews of \<^verbatim>\<open>materialize_dataframe\<close> at
  1000 rows. On a table of 1200 rows, \<^verbatim>\<open>head_string\<close> with \<open>n = 1001\<close> shows 1001
  rows.
\<close>

theorem head_string_is_not_capped:
  "data_handles (two_handle_mem long_table users) ''l'' = Some 0 \<and>
   length (rows long_table) = 1200 \<and>
   materialize_dataframe quiet_io ''l'' ''head_string'' (IntArg 1001) (two_handle_mem long_table users) =
     Text (ToString (df_head 1001 long_table)) \<and>
   length (rows (rendered_frame (ToString (df_head 1001 long_table)))) = 1001 \<and>
   \<not> (1001 \<le> (1000 :: nat))"
  by (simp add: materialize_dataframe_def two_handle_mem_simps quiet_io_def Let_def
         long_table_rows)

subsection \<open>Errors and the store\<close>

lemma step_mem_failed: "fst (step_mem u c m) = Error e \<Longrightarrow> snd (step_mem u c m) = m"
  by (cases c)
     (auto simp: query_database_mem_def combine_columns_mem_def join_dataframes_mem_def Let_def
                 case_prod_unfold
           split: option.splits sum.splits if_splits)

lemma query_database_gen_failed:
  "fst (query_database_gen u n m) = Error e \<Longrightarrow> snd (query_database_gen u n m) = m"
  by (auto simp: query_database_gen_def Let_def case_prod_unfold split: option.splits)

lemma load_inputs_frame:
  "data_handles (snd (load_inputs ins lv s)) = data_handles s \<and>
   sample_db (snd (load_inputs ins lv s)) = sample_db s"
proof (induction ins arbitrary: lv s)
  case Nil
  then show ?case by simp
next
  case (Cons p ins)
  obtain al h where p: "p = (al, h)" by (cases p)
  show ?case
  proof (cases "data_handles s h")
    case None
    with p show ?thesis by simp
  next
    case (Some a)
    with p show ?thesis
      by (simp add: copy_object_def new_object_def Cons.IH)
  qed
qed

lemma keeps_storeD:
  "keeps_store code \<Longrightarrow> code lv s = (r, s') \<Longrightarrow>
     data_handles s' = data_handles s \<and> sample_db s' = sample_db s"
  unfolding keeps_store_def by (metis snd_conv)

lemma execute_failed_before_outputs:
  assumes "load_inputs ins Map.empty m = (r, m1)"
  shows "r = Inl e \<Longrightarrow>
           fst (execute_pandas_code uuid4 code ins outs m) = Inl e \<and>
           data_handles (snd (execute_pandas_code uuid4 code ins outs m)) = data_handles m"
    and "r = Inr lv \<Longrightarrow> code lv m1 = (Inl x, m2) \<Longrightarrow>
           fst (execute_pandas_code uuid4 code ins outs m) = Inl (ExecutionError x) \<and>
           snd (execute_pandas_code uuid4 code ins outs m) = m2"
    and "r = Inr lv \<Longrightarrow> code lv m1 = (res, m2) \<Longrightarrow> keeps_store code \<Longrightarrow>
           data_handles m2 = data_handles m"
  using assms load_inputs_frame [of ins Map.empty m] keeps_storeD [of code lv m1 res m2]
  by (auto simp: execute_pandas_code_def)

lemma execute_outputs:
  assumes "load_inputs ins Map.empty m = (Inr lv, m1)" and "code lv m1 = (Inr lv', m2)"
  shows "execute_pandas_code uuid4 code ins outs m = store_outputs uuid4 0 outs lv' Map.empty m2"
  using assms by (simp add: execute_pandas_code_def)

text \<open>
  Claim C1, for \<^verbatim>\<open>execute_pandas_code\<close>. When an input handle is unknown the error is
  returned and \<^verbatim>\<open>data_handles\<close> is as before. When the code raises, or when the first
  output alias is missing or is not a DataFrame, the error is returned and the tool itself
  has written nothing: the state is the one the code has left, whose \<^verbatim>\<open>data_handles\<close>
  is as before the call for code that leaves the dictionaries of the module alone. When
  the first alias is a DataFrame and the second alias is missing or is not a DataFrame,
  the error is returned too, but by then the loop has stored the first result:
  \<^verbatim>\<open>data_handles\<close> has a new record under the first token drawn, a token that the
  caller never receives. (The other tools leave the store as it was whenever they return
  an error: \<open>step_failed_tbl\<close>, \<open>step_mem_failed\<close>, \<open>query_database_gen_failed\<close>.)
\<close>

theorem failed_execute_and_the_store:
  "(load_inputs ins Map.empty m = (Inl e, m1) \<longrightarrow>
      fst (execute_pandas_code uuid4 code ins outs m) = Inl e \<and>
      data_handles (snd (execute_pandas_code uuid4 code ins outs m)) = data_handles m) \<and>
   (load_inputs ins Map.empty m = (Inr lv, m1) \<and> code lv m1 = (Inl x, m2) \<longrightarrow>
      fst (execute_pandas_code uuid4 code ins outs m) = Inl (ExecutionError x) \<and>
      snd (execute_pandas_code uuid4 code ins outs m) = m2 \<and>
      (keeps_store code \<longrightarrow>
         data_handles (snd (execute_pandas_code uuid4 code ins outs m)) = data_handles m)) \<and>
   (load_inputs ins Map.empty m = (Inr lv, m1) \<and> code lv m1 = (Inr lv', m2) \<longrightarrow>
      (keeps_store code \<longrightarrow> data_handles m2 = data_handles m) \<and>
      (lv' a1 = None \<longrightarrow>
         fst (execute_pandas_code uuid4 code ins (a1 # rest) m) = Inl (OutputAliasNotFound a1) \<and>
         snd (execute_pandas_code uuid4 code ins (a1 # rest) m) = m2) \<and>
      (lv' a1 = Some (PyOther ty) \<longrightarrow>
         fst (execute_pandas_code uuid4 code ins (a1 # rest) m) = Inl (OutputNotDataFrame a1 ty) \<and>
         snd (execute_pandas_code uuid4 code ins (a1 # rest) m) = m2) \<and>
      (lv' a1 = Some (PyDataFrame d) \<and> lv' a2 = None \<longrightarrow>
         fst (execute_pandas_code uuid4 code ins (a1 # a2 # rest) m) = Inl (OutputAliasNotFound a2) \<and>
         data_handles (snd (execute_pandas_code uuid4 code ins (a1 # a2 # rest) m)) =
           (data_handles m2)(uuid4 0 \<mapsto> d)) \<and>
      (lv' a1 = Some (PyDataFrame d) \<and> lv' a2 = Some (PyOther ty) \<longrightarrow>
         fst (execute_pandas_code uuid4 code ins (a1 # a2 # rest) m) = Inl (OutputNotDataFrame a2 ty) \<and>
         data_handles (snd (execute_pandas_code uuid4 code ins (a1 # a2 # rest) m)) =
           (data_handles m2)(uuid4 0 \<mapsto> d)))"
proof -
  have raised: "fst (execute_pandas_code uuid4 code ins outs m) = Inl (ExecutionError x) \<and>
      snd (execute_pandas_code uuid4 code ins outs m) = m2 \<and>
      (keeps_store code \<longrightarrow>
         data_handles (snd (execute_pandas_code uuid4 code ins outs m)) = data_handles m)"
    if "load_inputs ins Map.empty m = (Inr lv, m1) \<and> code lv m1 = (Inl x, m2)"
  proof -
    from that have l: "load_inputs ins Map.empty m = (Inr lv, m1)"
      and c: "code lv m1 = (Inl x, m2)" by simp_all
    from execute_failed_before_outputs(2) [where code = code, OF l refl c, of uuid4 outs]
         execute_failed_before_outputs(3) [where code = code, OF l refl c]
    show ?thesis by simp
  qed
  have out: "(keeps_store code \<longrightarrow> data_handles m2 = data_handles m) \<and>
      (lv' a1 = None \<longrightarrow>
         fst (execute_pandas_code uuid4 code ins (a1 # rest) m) = Inl (OutputAliasNotFound a1) \<and>
         snd (execute_pandas_code uuid4 code ins (a1 # rest) m) = m2) \<and>
      (lv' a1 = Some (PyOther ty) \<longrightarrow>
         fst (execute_pandas_code uuid4 code ins (a1 # rest) m) = Inl (OutputNotDataFrame a1 ty) \<and>
         snd (execute_pandas_code uuid4 code ins (a1 # rest) m) = m2) \<and>
      (lv' a1 = Some (PyDataFrame d) \<and> lv' a2 = None \<longrightarrow>
         fst (execute_pandas_code uuid4 code ins (a1 # a2 # rest) m) = Inl (OutputAliasNotFound a2) \<and>
         data_handles (snd (execute_pandas_code uuid4 code ins (a1 # a2 # rest) m)) =
           (data_handles m2)(uuid4 0 \<mapsto> d)) \<and>
      (lv' a1 = Some (PyDataFrame d) \<and> lv' a2 = Some (PyOther ty) \<longrightarrow>
         fst (execute_pandas_code uuid4 code ins (a1 # a2 # rest) m) = Inl (OutputNotDataFrame a2 ty) \<and>
         data_handles (snd (execute_pandas_code uuid4 code ins (a1 # a2 # rest) m)) =
           (data_handles m2)(uuid4 0 \<mapsto> d))"
    if "load_inputs ins Map.empty m = (Inr lv, m1) \<and> code lv m1 = (Inr lv', m2)"
  proof -
    from that have l: "load_inputs ins Map.empty m = (Inr lv, m1)"
      and c: "code lv m1 = (Inr lv', m2)" by simp_all
    show ?thesis
      using execute_outputs [where code = code, OF l c, of uuid4]
            execute_failed_before_outputs(3) [where code = code, OF l refl c]
      by simp
  qed
  show ?thesis
    using execute_failed_before_outputs(1) [of ins m "Inl e" m1 e uuid4 code outs]
          raised out
    by blast
qed

text \<open>
  The failing input: the code \<^verbatim>\<open>result = df\<close> with the output aliases \<open>result\<close> and
  \<open>summary\<close>. The token \<open>u0\<close> is unbound before the call and bound after it, though the
  call returns an error.
\<close>

lemma example_load_inputs:
  "load_inputs [(''df'', ''nope'')] Map.empty (two_handle_mem users orders) =
     (Inl (InputHandleNotFound ''nope'' ''df''), two_handle_mem users orders)"
  "load_inputs [(''df'', ''l'')] Map.empty (two_handle_mem users orders) =
     (Inr [''df'' \<mapsto> PyDataFrame 2], (two_handle_mem users orders)\<lparr>heap := [users, orders, users]\<rparr>)"
  by (simp_all add: two_handle_mem_def copy_object_def new_object_def numeral_2_eq_2)

lemma example_codes_keep_store:
  "keeps_store assign_result" "keeps_store raise_error" "keeps_store mutate_input"
  by (auto simp: keeps_store_def assign_result_def raise_error_def mutate_input_def
           split: option.splits pyval.splits)

theorem failed_execute_and_the_store_witness:
  "data_handles (two_handle_mem users orders) ''u0'' = None \<and>
   keeps_store assign_result \<and> keeps_store raise_error \<and>
   fst (execute_pandas_code example_uuid4 assign_result [(''df'', ''nope'')] [''result'']
          (two_handle_mem users orders)) = Inl (InputHandleNotFound ''nope'' ''df'') \<and>
   fst (execute_pandas_code example_uuid4 raise_error [(''df'', ''l'')] [''result'']
          (two_handle_mem users orders)) = Inl (ExecutionError (OtherException ''boom'')) \<and>
   data_handles (snd (execute_pandas_code example_uuid4 raise_error [(''df'', ''l'')] [''result'']
          (two_handle_mem users orders))) = data_handles (two_handle_mem users orders) \<and>
   fst (execute_pandas_code example_uuid4 assign_result [(''df'', ''l'')] [''summary'', ''result'']
          (two_handle_mem users orders)) = Inl (OutputAliasNotFound ''summary'') \<and>
   data_handles (snd (execute_pandas_code example_uuid4 assign_result [(''df'', ''l'')] [''summary'', ''result'']
          (two_handle_mem users orders))) = data_handles (two_handle_mem users orders) \<and>
   fst (execute_pandas_code example_uuid4 assign_result [(''df'', ''l'')] [''n'']
          (two_handle_mem users orders)) = Inl (OutputNotDataFrame ''n'' ''int'') \<and>
   fst (execute_pandas_code example_uuid4 assign_result [(''df'', ''l'')] [''result'', ''summary'']
          (two_handle_mem users orders)) = Inl (OutputAliasNotFound ''summary'') \<and>
   data_handles (snd (execute_pandas_code example_uuid4 assign_result [(''df'', ''l'')] [''result'', ''summary'']
          (two_handle_mem users orders))) ''u0'' = Some 2 \<and>
   fst (execute_pandas_code example_uuid4 assign_result [(''df'', ''l'')] [''result'', ''n'']
          (two_handle_mem users orders)) = Inl (OutputNotDataFrame ''n'' ''int'') \<and>
   data_handles (snd (execute_pandas_code example_uuid4 assign_result [(''df'', ''l'')] [''result'', ''n'']
          (two_handle_mem users orders))) ''u0'' = Some 2"
proof -
  let ?m = "two_handle_mem users orders"
  let ?m1 = "?m\<lparr>heap := [users, orders, users]\<rparr>"
  let ?lv = "[''df'' \<mapsto> PyDataFrame 2]"
  let ?lv' = "?lv(''result'' := ?lv ''df'', ''n'' \<mapsto> PyOther ''int'')"
  have code: "assign_result ?lv ?m1 = (Inr ?lv', ?m1)"
    and boom: "raise_error ?lv ?m1 = (Inl (OtherException ''boom''), ?m1)"
    by (simp_all add: assign_result_def raise_error_def)
  have lv': "?lv' ''summary'' = None" "?lv' ''n'' = Some (PyOther ''int'')"
    "?lv' ''result'' = Some (PyDataFrame 2)"
    by simp_all
  have u0: "example_uuid4 0 = ''u0''" by (simp add: example_uuid4_def)
  have fresh: "data_handles ?m ''u0'' = None" by (simp add: two_handle_mem_def)
  have dm1: "data_handles ?m1 = data_handles ?m" by simp
  note t1 = failed_execute_and_the_store [where ins = "[(''df'', ''nope'')]" and m = ?m
      and e = "InputHandleNotFound ''nope'' ''df''" and ?m1.0 = ?m and code = assign_result
      and outs = "[''result'']" and ?uuid4.0 = example_uuid4]
  note t2 = failed_execute_and_the_store [where ins = "[(''df'', ''l'')]" and m = ?m
      and ?m1.0 = ?m1 and lv = ?lv and code = raise_error and x = "OtherException ''boom''"
      and ?m2.0 = ?m1 and outs = "[''result'']" and ?uuid4.0 = example_uuid4]
  note t3 = failed_execute_and_the_store [where ins = "[(''df'', ''l'')]" and m = ?m
      and ?m1.0 = ?m1 and lv = ?lv and code = assign_result and lv' = ?lv'
      and ?m2.0 = ?m1 and ?uuid4.0 = example_uuid4
      and ?a1.0 = "''summary''" and rest = "[''result'']"]
  note t4 = failed_execute_and_the_store [where ins = "[(''df'', ''l'')]" and m = ?m
      and ?m1.0 = ?m1 and lv = ?lv and code = assign_result and lv' = ?lv'
      and ?m2.0 = ?m1 and ?uuid4.0 = example_uuid4
      and ?a1.0 = "''n''" and ty = "''int''" and rest = "[]"]
  note t5 = failed_execute_and_the_store [where ins = "[(''df'', ''l'')]" and m = ?m
      and ?m1.0 = ?m1 and lv = ?lv and code = assign_result and lv' = ?lv'
      and ?m2.0 = ?m1 and ?uuid4.0 = example_uuid4
      and ?a1.0 = "''result''" and ?a2.0 = "''summary''" and d = 2 and rest = "[]"]
  note t6 = failed_execute_and_the_store [where ins = "[(''df'', ''l'')]" and m = ?m
      and ?m1.0 = ?m1 and lv = ?lv and code = assign_result and lv' = ?lv'
      and ?m2.0 = ?m1 and ?uuid4.0 = example_uuid4
      and ?a1.0 = "''result''" and ?a2.0 = "''n''" and d = 2 and ty = "''int''" and rest = "[]"]
  show ?thesis
    using t1 t2 t3 t4 t5 t6 example_load_inputs code boom lv' fresh example_codes_keep_store(1,2)
    by (simp add: u0)
qed

subsection \<open>Copies keep tables apart\<close>

lemma unshared_init: "unshared init_mem"
  by (auto simp: unshared_def valid_refs_def init_mem_def split: if_splits)

lemma query_mem_frame:
  assumes "unshared m" and "data_handles m u = None"
  shows "unshared (snd (query_database_mem u n m))"
    and "seed_table (snd (query_database_mem u n m)) n' = seed_table m n'"
    and "data_handles m k \<noteq> None \<Longrightarrow> resolve_mem (snd (query_database_mem u n m)) k = resolve_mem m k"
proof -
  show "unshared (snd (query_database_mem u n m))"
    using assms
    by (auto simp: query_database_mem_def copy_object_def new_object_def unshared_def valid_refs_def
          less_Suc_eq split: option.splits if_splits)
  show "seed_table (snd (query_database_mem u n m)) n' = seed_table m n'"
    using assms
    by (cases "sample_db m n'") (auto simp: query_database_mem_def copy_object_def new_object_def unshared_def valid_refs_def
          seed_table_def nth_append split: option.splits)
  show "resolve_mem (snd (query_database_mem u n m)) k = resolve_mem m k" if "data_handles m k \<noteq> None"
    using assms that
    by (auto simp: query_database_mem_def copy_object_def new_object_def unshared_def valid_refs_def
          resolve_mem_def nth_append split: option.splits)
qed

lemma join_mem_frame:
  assumes "unshared m" and "data_handles m u = None"
  shows "unshared (snd (join_dataframes_mem u h1 h2 c how m))"
    and "seed_table (snd (join_dataframes_mem u h1 h2 c how m)) n' = seed_table m n'"
    and "data_handles m k \<noteq> None \<Longrightarrow> resolve_mem (snd (join_dataframes_mem u h1 h2 c how m)) k = resolve_mem m k"
proof -
  show "unshared (snd (join_dataframes_mem u h1 h2 c how m))"
    using assms
    by (auto simp: join_dataframes_mem_def new_object_def unshared_def valid_refs_def Let_def
          less_Suc_eq split: option.splits if_splits sum.splits)
  show "seed_table (snd (join_dataframes_mem u h1 h2 c how m)) n' = seed_table m n'"
    using assms
    by (cases "sample_db m n'") (auto simp: join_dataframes_mem_def new_object_def unshared_def valid_refs_def Let_def
          seed_table_def nth_append split: option.splits sum.splits)
  show "resolve_mem (snd (join_dataframes_mem u h1 h2 c how m)) k = resolve_mem m k" if "data_handles m k \<noteq> None"
    using assms that
    by (auto simp: join_dataframes_mem_def new_object_def unshared_def valid_refs_def Let_def
          resolve_mem_def nth_append split: option.splits sum.splits)
qed

lemma combine_mem_frame:
  assumes "unshared m"
  shows "unshared (snd (combine_columns_mem h c1 c2 new sep m))"
    and "seed_table (snd (combine_columns_mem h c1 c2 new sep m)) n' = seed_table m n'"
    and "k \<noteq> h \<Longrightarrow> resolve_mem (snd (combine_columns_mem h c1 c2 new sep m)) k = resolve_mem m k"
proof -
  have seed: "a \<noteq> b" if "data_handles m h = Some a" "sample_db m n' = Some b" for a b
    using assms that by (auto simp: unshared_def)
  have other: "a \<noteq> b" if "data_handles m h = Some a" "data_handles m k = Some b" "k \<noteq> h" for a b
    using assms that by (auto simp: unshared_def)
  show "unshared (snd (combine_columns_mem h c1 c2 new sep m))"
    using assms
    by (auto simp: combine_columns_mem_def unshared_def valid_refs_def Let_def
          split: option.splits if_splits sum.splits)
  show "seed_table (snd (combine_columns_mem h c1 c2 new sep m)) n' = seed_table m n'"
    using seed
    by (cases "sample_db m n'")
       (auto simp: combine_columns_mem_def Let_def seed_table_def split: option.splits sum.splits)
  show "resolve_mem (snd (combine_columns_mem h c1 c2 new sep m)) k = resolve_mem m k" if "k \<noteq> h"
    using other that
    by (cases "data_handles m k")
       (auto simp: combine_columns_mem_def Let_def resolve_mem_def split: option.splits sum.splits)
qed

lemma query_gen_frame:
  assumes "valid_refs m" and "data_handles m u = None"
  shows "valid_refs (snd (query_database_gen u n m))"
    and "seed_table (snd (query_database_gen u n m)) n' = seed_table m n'"
    and "data_handles m k \<noteq> None \<Longrightarrow> resolve_mem (snd (query_database_gen u n m)) k = resolve_mem m k"
    and "sample_db m n = Some a \<Longrightarrow>
           fst (query_database_gen u n m) = Handle u \<and>
           resolve_mem (snd (query_database_gen u n m)) u = seed_table m n \<and>
           data_handles (snd (query_database_gen u n m)) u \<noteq> Some a"
proof -
  show "valid_refs (snd (query_database_gen u n m))"
    using assms
    by (auto simp: query_database_gen_def copy_object_def new_object_def valid_refs_def
          less_Suc_eq split: option.splits if_splits)
  show "seed_table (snd (query_database_gen u n m)) n' = seed_table m n'"
    using assms
    by (cases "sample_db m n'")
       (auto simp: query_database_gen_def copy_object_def new_object_def valid_refs_def
          seed_table_def nth_append split: option.splits)
  show "resolve_mem (snd (query_database_gen u n m)) k = resolve_mem m k" if "data_handles m k \<noteq> None"
    using assms that
    by (auto simp: query_database_gen_def copy_object_def new_object_def valid_refs_def
          resolve_mem_def nth_append split: option.splits)
  show "fst (query_database_gen u n m) = Handle u \<and>
           resolve_mem (snd (query_database_gen u n m)) u = seed_table m n \<and>
           data_handles (snd (query_database_gen u n m)) u \<noteq> Some a" if "sample_db m n = Some a"
    using assms that
    by (auto simp: query_database_gen_def copy_object_def new_object_def valid_refs_def
          resolve_mem_def seed_table_def)
qed

lemma load_inputs_heap:
  "load_inputs ins lv s = (r, s1) \<Longrightarrow>
     (\<exists>ext. heap s1 = heap s @ ext) \<and>
     (\<forall>lv' x a. r = Inr lv' \<and> lv' x = Some (PyDataFrame a) \<longrightarrow>
        lv x = Some (PyDataFrame a) \<or> (length (heap s) \<le> a \<and> a < length (heap s1)))"
proof (induction ins arbitrary: lv s)
  case Nil
  then show ?case by auto
next
  case (Cons p ins)
  obtain al h where p: "p = (al, h)" by (cases p)
  show ?case
  proof (cases "data_handles s h")
    case None
    with p Cons.prems show ?thesis by auto
  next
    case (Some c)
    let ?s = "s\<lparr>heap := heap s @ [heap s ! c]\<rparr>"
    let ?lv = "lv(al \<mapsto> PyDataFrame (length (heap s)))"
    from p Some Cons.prems have "load_inputs ins ?lv ?s = (r, s1)"
      by (simp add: copy_object_def new_object_def)
    from Cons.IH [OF this]
    obtain ext where e: "heap s1 = heap ?s @ ext"
      and refs: "\<And>lv' x a. r = Inr lv' \<Longrightarrow> lv' x = Some (PyDataFrame a) \<Longrightarrow>
                   ?lv x = Some (PyDataFrame a) \<or> (length (heap ?s) \<le> a \<and> a < length (heap s1))"
      by blast
    have "\<exists>ext. heap s1 = heap s @ ext" using e by simp
    moreover have "lv x = Some (PyDataFrame a) \<or> (length (heap s) \<le> a \<and> a < length (heap s1))"
      if "r = Inr lv'" "lv' x = Some (PyDataFrame a)" for lv' x a
      using refs [OF that] e by (auto split: if_splits)
    ultimately show ?thesis by blast
  qed
qed

lemma store_outputs_frame:
  "store_outputs uuid4 i outs lv out s = (r, s') \<Longrightarrow>
     heap s' = heap s \<and> sample_db s' = sample_db s \<and>
     (\<forall>k. (\<forall>j. k \<noteq> uuid4 j) \<longrightarrow> data_handles s' k = data_handles s k) \<and>
     (\<forall>k a. data_handles s' k = Some a \<longrightarrow>
        data_handles s k = Some a \<or> (\<exists>x. lv x = Some (PyDataFrame a)))"
proof (induction outs arbitrary: i out s)
  case Nil
  then show ?case by auto
next
  case (Cons al outs)
  show ?case
  proof (cases "lv al")
    case None
    with Cons.prems show ?thesis by auto
  next
    case (Some v)
    show ?thesis
    proof (cases v)
      case (PyOther ty)
      with Some Cons.prems show ?thesis by auto
    next
      case (PyDataFrame d)
      let ?s = "s\<lparr>data_handles := (data_handles s)(uuid4 i \<mapsto> d)\<rparr>"
      from Some PyDataFrame Cons.prems
      have "store_outputs uuid4 (Suc i) outs lv (out(al \<mapsto> uuid4 i)) ?s = (r, s')" by simp
      from Cons.IH [OF this] Some PyDataFrame show ?thesis
        by (auto split: if_splits)
    qed
  qed
qed

lemma execute_frame:
  assumes v: "valid_refs m" and c: "confined code" and f: "\<forall>i. data_handles m (uuid4 i) = None"
  shows "valid_refs (snd (execute_pandas_code uuid4 code ins outs m)) \<and>
         (\<forall>n. seed_table (snd (execute_pandas_code uuid4 code ins outs m)) n = seed_table m n) \<and>
         (\<forall>k. data_handles m k \<noteq> None \<longrightarrow>
              resolve_mem (snd (execute_pandas_code uuid4 code ins outs m)) k = resolve_mem m k)"
proof -
  let ?m' = "snd (execute_pandas_code uuid4 code ins outs m)"
  obtain r m1 where l: "load_inputs ins Map.empty m = (r, m1)" by (cases "load_inputs ins Map.empty m")
  from load_inputs_frame [of ins Map.empty m] l
  have dh1: "data_handles m1 = data_handles m" and sd1: "sample_db m1 = sample_db m" by simp_all
  from load_inputs_heap [OF l] obtain ext where ext: "heap m1 = heap m @ ext"
    and refs: "\<And>lv x a. r = Inr lv \<Longrightarrow> lv x = Some (PyDataFrame a) \<Longrightarrow>
                 length (heap m) \<le> a \<and> a < length (heap m1)"
    by auto
  have key: "sample_db ?m' = sample_db m \<and>
             length (heap m) \<le> length (heap ?m') \<and>
             (\<forall>a<length (heap m). heap ?m' ! a = heap m ! a) \<and>
             (\<forall>k. data_handles m k \<noteq> None \<longrightarrow> data_handles ?m' k = data_handles m k) \<and>
             (\<forall>k a. data_handles ?m' k = Some a \<longrightarrow> a < length (heap ?m'))"
  proof (cases r)
    case (Inl e)
    with l have "?m' = m1" by (simp add: execute_pandas_code_def)
    with dh1 sd1 ext v show ?thesis
      by (auto simp: nth_append valid_refs_def intro: trans_less_add1)
  next
    case (Inr lv)
    obtain res m2 where cd: "code lv m1 = (res, m2)" by (cases "code lv m1")
    have vl: "\<forall>x a. lv x = Some (PyDataFrame a) \<longrightarrow> a < length (heap m1)"
      using refs [OF Inr] by blast
    from c have ks: "keeps_store code" by (simp add: confined_def)
    from keeps_storeD [OF ks cd] dh1 sd1
    have dh2: "data_handles m2 = data_handles m" and sd2: "sample_db m2 = sample_db m" by simp_all
    from c cd vl have len: "length (heap m1) \<le> length (heap m2)"
      and same: "\<And>a. a < length (heap m1) \<Longrightarrow> (\<forall>x. lv x \<noteq> Some (PyDataFrame a)) \<Longrightarrow>
                   heap m2 ! a = heap m1 ! a"
      and out: "\<And>lv' x a. res = Inr lv' \<Longrightarrow> lv' x = Some (PyDataFrame a) \<Longrightarrow> a < length (heap m2)"
      unfolding confined_def by (fastforce dest: spec [of _ lv] spec [of _ m1])+
    have keep: "heap m2 ! a = heap m ! a" if "a < length (heap m)" for a
    proof -
      have "\<forall>x. lv x \<noteq> Some (PyDataFrame a)"
        using refs [OF Inr] that by fastforce
      with same [of a] that ext show ?thesis by (simp add: nth_append)
    qed
    have lenm: "length (heap m) \<le> length (heap m2)" using len ext by simp
    have hv: "a < length (heap m2)" if "data_handles m k = Some a" for k a
      using v that lenm unfolding valid_refs_def by (metis less_le_trans)
    show ?thesis
    proof (cases res)
      case (Inl x)
      with l Inr cd have "?m' = m2" by (simp add: execute_pandas_code_def)
      with dh2 sd2 keep lenm hv show ?thesis
        by auto
    next
      case (Inr lv')
      obtain r' where so: "store_outputs uuid4 0 outs lv' Map.empty m2 = (r', ?m')"
        using l \<open>r = Inr lv\<close> cd Inr
        by (cases "store_outputs uuid4 0 outs lv' Map.empty m2")
           (simp add: execute_pandas_code_def)
      from store_outputs_frame [OF so]
      have h: "heap ?m' = heap m2" and sd: "sample_db ?m' = sample_db m2"
        and oth: "\<And>k. (\<forall>j. k \<noteq> uuid4 j) \<Longrightarrow> data_handles ?m' k = data_handles m2 k"
        and new: "\<And>k a. data_handles ?m' k = Some a \<Longrightarrow>
                    data_handles m2 k = Some a \<or> (\<exists>x. lv' x = Some (PyDataFrame a))"
        by auto
      have bnd: "data_handles ?m' k = data_handles m k" if "data_handles m k \<noteq> None" for k
      proof -
        from that f have "\<forall>j. k \<noteq> uuid4 j" by auto
        from oth [OF this] dh2 show ?thesis by simp
      qed
      have val: "a < length (heap ?m')" if "data_handles ?m' k = Some a" for k a
        using new [OF that] out [OF Inr] hv dh2 h
        by auto
      from h sd sd2 keep lenm bnd val show ?thesis by auto
    qed
  qed
  have seeds: "seed_table ?m' n = seed_table m n" for n
    using key v by (cases "sample_db m n") (auto simp: seed_table_def valid_refs_def)
  have res: "resolve_mem ?m' k = resolve_mem m k" if "data_handles m k \<noteq> None" for k
    using key v that by (auto simp: resolve_mem_def valid_refs_def)
  have "valid_refs ?m'"
    using key v unfolding valid_refs_def by (metis less_le_trans)
  with seeds res show ?thesis by blast
qed

lemma mutate_input_confined: "confined mutate_input"
  unfolding confined_def
  by (auto simp: example_codes_keep_store mutate_input_def nth_list_update
           split: option.splits pyval.splits if_splits)

lemma gen_after_query_reached:
  "snd (query_database_gen ''g1'' ''users'' init_mem) = gen_after_query"
  by (simp add: query_database_gen_def init_mem_def copy_object_def new_object_def
                gen_after_query_def numeral_2_eq_2)

text \<open>
  Claim C10. In the in-memory servers a dictionary entry refers to a DataFrame object.
  \<^verbatim>\<open>query_database\<close> binds the new token to a new object with the content of the seed
  table, not to the seed table's object; \<^verbatim>\<open>execute_pandas_code\<close> binds each alias to a
  new object with the content of the handle's table. Hence a call of any tool of
  \<^verbatim>\<open>mcp_handles/df_abstractions.py\<close>, the in-place \<^verbatim>\<open>combine_columns\<close> included,
  leaves every seed table and the table of every other bound handle as they were; and a
  call of \<^verbatim>\<open>execute_pandas_code\<close>, with code that reaches objects only through its local
  variables and leaves the dictionaries of the module alone, leaves every seed table and the table of every bound handle, its input
  handles among them, as they were. The invariants under which this is proved hold when
  the module is loaded and after every call, so that the statement carries over to any
  sequence of calls; the tokens drawn are supposed not to be keys of the store already.
  (The persistent server keeps pickled values, not references: a table it has stored is
  not reachable from any other.)
\<close>

theorem copies_isolate_tables:
  "unshared init_mem \<and>
   (unshared m \<and> data_handles m u = None \<longrightarrow>
      unshared (snd (step_mem u c m)) \<and>
      (\<forall>n. seed_table (snd (step_mem u c m)) n = seed_table m n) \<and>
      (\<forall>k. data_handles m k \<noteq> None \<and> \<not> rebinds c k \<longrightarrow>
           resolve_mem (snd (step_mem u c m)) k = resolve_mem m k)) \<and>
   (valid_refs g \<and> data_handles g u' = None \<longrightarrow>
      valid_refs (snd (query_database_gen u' t g)) \<and>
      (\<forall>n. seed_table (snd (query_database_gen u' t g)) n = seed_table g n) \<and>
      (\<forall>k. data_handles g k \<noteq> None \<longrightarrow>
           resolve_mem (snd (query_database_gen u' t g)) k = resolve_mem g k) \<and>
      (\<forall>a. sample_db g t = Some a \<longrightarrow>
           fst (query_database_gen u' t g) = Handle u' \<and>
           resolve_mem (snd (query_database_gen u' t g)) u' = seed_table g t \<and>
           data_handles (snd (query_database_gen u' t g)) u' \<noteq> Some a)) \<and>
   (\<forall>a. data_handles g h = Some a \<longrightarrow>
      load_inputs [(al, h)] Map.empty g =
        (Inr [al \<mapsto> PyDataFrame (length (heap g))], g\<lparr>heap := heap g @ [heap g ! a]\<rparr>)) \<and>
   (valid_refs g \<and> confined code \<and> (\<forall>i. data_handles g (uuid4 i) = None) \<longrightarrow>
      valid_refs (snd (execute_pandas_code uuid4 code ins outs g)) \<and>
      (\<forall>n. seed_table (snd (execute_pandas_code uuid4 code ins outs g)) n = seed_table g n) \<and>
      (\<forall>k. data_handles g k \<noteq> None \<longrightarrow>
           resolve_mem (snd (execute_pandas_code uuid4 code ins outs g)) k = resolve_mem g k))"
proof -
  have mem: "unshared (snd (step_mem u c m)) \<and>
      (\<forall>n. seed_table (snd (step_mem u c m)) n = seed_table m n) \<and>
      (\<forall>k. data_handles m k \<noteq> None \<and> \<not> rebinds c k \<longrightarrow>
           resolve_mem (snd (step_mem u c m)) k = resolve_mem m k)"
    if "unshared m \<and> data_handles m u = None"
  proof -
    from that have a: "unshared m" and b: "data_handles m u = None" by simp_all
    show ?thesis
    proof (cases c)
      case (QueryDatabaseM n)
      with query_mem_frame [OF a b] show ?thesis by simp
    next
      case (CombineColumnsM h c1 c2 new sep)
      with combine_mem_frame [OF a] show ?thesis by simp
    next
      case (JoinDataframesM h1 h2 cn how)
      with join_mem_frame [OF a b] show ?thesis by simp
    qed
  qed
  have gen: "valid_refs (snd (query_database_gen u' t g)) \<and>
      (\<forall>n. seed_table (snd (query_database_gen u' t g)) n = seed_table g n) \<and>
      (\<forall>k. data_handles g k \<noteq> None \<longrightarrow>
           resolve_mem (snd (query_database_gen u' t g)) k = resolve_mem g k) \<and>
      (\<forall>a. sample_db g t = Some a \<longrightarrow>
           fst (query_database_gen u' t g) = Handle u' \<and>
           resolve_mem (snd (query_database_gen u' t g)) u' = seed_table g t \<and>
           data_handles (snd (query_database_gen u' t g)) u' \<noteq> Some a)"
    if "valid_refs g \<and> data_handles g u' = None"
  proof -
    from that have a: "valid_refs g" and b: "data_handles g u' = None" by simp_all
    from query_gen_frame [OF a b] show ?thesis by blast
  qed
  have inp: "load_inputs [(al, h)] Map.empty g =
        (Inr [al \<mapsto> PyDataFrame (length (heap g))], g\<lparr>heap := heap g @ [heap g ! a]\<rparr>)"
    if "data_handles g h = Some a" for a
    using that by (simp add: copy_object_def new_object_def)
  have exe: "valid_refs (snd (execute_pandas_code uuid4 code ins outs g)) \<and>
      (\<forall>n. seed_table (snd (execute_pandas_code uuid4 code ins outs g)) n = seed_table g n) \<and>
      (\<forall>k. data_handles g k \<noteq> None \<longrightarrow>
           resolve_mem (snd (execute_pandas_code uuid4 code ins outs g)) k = resolve_mem g k)"
    if "valid_refs g \<and> confined code \<and> (\<forall>i. data_handles g (uuid4 i) = None)"
    using execute_frame [of g code uuid4 ins outs] that by blast
  from unshared_init mem gen inp exe show ?thesis by blast
qed

lemma gen_after_query_valid: "valid_refs gen_after_query"
  by (auto simp: valid_refs_def gen_after_query_def split: if_splits)

theorem copies_isolate_tables_witness:
  "unshared init_mem \<and> data_handles init_mem ''m1'' = None \<and>
   snd (step_mem ''m2'' (QueryDatabaseM ''orders'')
          (snd (step_mem ''m1'' (QueryDatabaseM ''users'') init_mem))) = mem_after_queries \<and>
   unshared mem_after_queries \<and> data_handles mem_after_queries ''m3'' = None \<and>
   data_handles mem_after_queries ''m2'' \<noteq> None \<and>
   \<not> rebinds (CombineColumnsM ''m1'' ''name'' ''city'' ''label'' '' '') ''m2'' \<and>
   seed_table (snd (step_mem ''m3'' (CombineColumnsM ''m1'' ''name'' ''city'' ''label'' '' '')
                      mem_after_queries)) ''users'' = Some users \<and>
   resolve_mem (snd (step_mem ''m3'' (CombineColumnsM ''m1'' ''name'' ''city'' ''label'' '' '')
                      mem_after_queries)) ''m2'' = Some orders \<and>
   map_option columns
     (resolve_mem (snd (step_mem ''m3'' (CombineColumnsM ''m1'' ''name'' ''city'' ''label'' '' '')
                      mem_after_queries)) ''m1'') =
     Some [''user_id'', ''name'', ''city'', ''label''] \<and>
   valid_refs gen_after_query \<and> data_handles gen_after_query ''g2'' = None \<and>
   data_handles gen_after_query ''g1'' = Some 2 \<and> sample_db gen_after_query ''orders'' = Some 1 \<and>
   resolve_mem (snd (query_database_gen ''g2'' ''orders'' gen_after_query)) ''g1'' = Some users \<and>
   resolve_mem (snd (query_database_gen ''g2'' ''orders'' gen_after_query)) ''g2'' = Some orders \<and>
   data_handles (snd (query_database_gen ''g2'' ''orders'' gen_after_query)) ''g2'' \<noteq> Some 1 \<and>
   load_inputs [(''df'', ''g1'')] Map.empty gen_after_query =
     (Inr [''df'' \<mapsto> PyDataFrame 3], gen_after_query\<lparr>heap := [users, orders, users, users]\<rparr>) \<and>
   confined mutate_input \<and>
   fst (execute_pandas_code example_uuid4 mutate_input [(''df'', ''g1'')] [''result''] gen_after_query) =
     Inr [''result'' \<mapsto> ''u0''] \<and>
   resolve_mem (snd (execute_pandas_code example_uuid4 mutate_input [(''df'', ''g1'')] [''result''] gen_after_query))
     ''u0'' = Some (df_head 1 users) \<and>
   resolve_mem (snd (execute_pandas_code example_uuid4 mutate_input [(''df'', ''g1'')] [''result''] gen_after_query))
     ''g1'' = Some users \<and>
   seed_table (snd (execute_pandas_code example_uuid4 mutate_input [(''df'', ''g1'')] [''result''] gen_after_query))
     ''users'' = Some users"
proof -
  let ?m1 = "snd (step_mem ''m1'' (QueryDatabaseM ''users'') init_mem)"
  let ?cc = "CombineColumnsM ''m1'' ''name'' ''city'' ''label'' '' ''"
  let ?ex = "execute_pandas_code example_uuid4 mutate_input [(''df'', ''g1'')] [''result''] gen_after_query"
  have f1: "data_handles init_mem ''m1'' = None" by (simp add: init_mem_def)
  have m1: "snd (query_database_mem ''m1'' ''users'' init_mem) =
               \<lparr>heap = [users, orders, users], sample_db = [''users'' \<mapsto> 0, ''orders'' \<mapsto> 1],
                data_handles = [''m1'' \<mapsto> 2]\<rparr>"
    by (simp add: query_database_mem_def init_mem_def copy_object_def new_object_def numeral_2_eq_2)
  have f2: "data_handles ?m1 ''m2'' = None" by (simp add: m1)
  have m2: "snd (step_mem ''m2'' (QueryDatabaseM ''orders'') ?m1) = mem_after_queries"
    unfolding step_mem.simps m1
    by (simp add: query_database_mem_def copy_object_def new_object_def mem_after_queries_def
          numeral_3_eq_3 numeral_2_eq_2)
  have f3: "data_handles mem_after_queries ''m3'' = None"
    and b2: "data_handles mem_after_queries ''m2'' \<noteq> None"
    and su: "seed_table mem_after_queries ''users'' = Some users"
    and r2: "resolve_mem mem_after_queries ''m2'' = Some orders"
    by (simp_all add: mem_after_queries_def seed_table_def resolve_mem_def)
  have nr: "\<not> rebinds ?cc ''m2''" by simp
  have cols: "map_option columns (resolve_mem (snd (step_mem ''m3'' ?cc mem_after_queries)) ''m1'') =
                Some [''user_id'', ''name'', ''city'', ''label'']"
    by (simp add: mem_after_queries_def combine_columns_mem_def combine_series_def repeated_def
          positions_def resolve_mem_def users_def set_column_def Let_def)
  have g: "data_handles gen_after_query ''g2'' = None" "data_handles gen_after_query ''g1'' = Some 2"
    "sample_db gen_after_query ''orders'' = Some 1" "data_handles gen_after_query ''g1'' \<noteq> None"
    "resolve_mem gen_after_query ''g1'' = Some users" "seed_table gen_after_query ''orders'' = Some orders"
    "seed_table gen_after_query ''users'' = Some users" "length (heap gen_after_query) = 3"
    "heap gen_after_query ! 2 = users"
    by (simp_all add: gen_after_query_def resolve_mem_def seed_table_def)
  have fr: "\<forall>i. data_handles gen_after_query (example_uuid4 i) = None"
    by (simp add: gen_after_query_def example_uuid4_def)
  have ex: "fst ?ex = Inr [''result'' \<mapsto> ''u0'']" "resolve_mem (snd ?ex) ''u0'' = Some (df_head 1 users)"
    by (simp_all add: execute_pandas_code_def gen_after_query_def copy_object_def new_object_def
          mutate_input_def example_uuid4_def resolve_mem_def numeral_3_eq_3 numeral_2_eq_2)
  note t1 = copies_isolate_tables [where m = init_mem and u = "''m1''" and c = "QueryDatabaseM ''users''"
      and g = gen_after_query and u' = "''g2''" and t = "''orders''" and h = "''g1''" and al = "''df''"
      and code = mutate_input and ?uuid4.0 = example_uuid4 and ins = "[(''df'', ''g1'')]"
      and outs = "[''result'']"]
  note t2 = copies_isolate_tables [where m = ?m1 and u = "''m2''" and c = "QueryDatabaseM ''orders''"]
  note t3 = copies_isolate_tables [where m = mem_after_queries and u = "''m3''" and c = ?cc]
  from t1 f1 have u1: "unshared init_mem" "unshared ?m1" by blast+
  from t2 u1 f2 have "unshared (snd (step_mem ''m2'' (QueryDatabaseM ''orders'') ?m1))" by blast
  then have u2: "unshared mem_after_queries" by (simp only: m2)
  from t3 u2 f3
  have "seed_table (snd (step_mem ''m3'' ?cc mem_after_queries)) ''users'' =
          seed_table mem_after_queries ''users''"
    and "data_handles mem_after_queries ''m2'' \<noteq> None \<and> \<not> rebinds ?cc ''m2'' \<longrightarrow>
          resolve_mem (snd (step_mem ''m3'' ?cc mem_after_queries)) ''m2'' =
          resolve_mem mem_after_queries ''m2''"
    by blast+
  with su r2 b2 nr
  have s2: "seed_table (snd (step_mem ''m3'' ?cc mem_after_queries)) ''users'' = Some users"
    and r3: "resolve_mem (snd (step_mem ''m3'' ?cc mem_after_queries)) ''m2'' = Some orders"
    by simp_all
  from t1 gen_after_query_valid g
  have q: "resolve_mem (snd (query_database_gen ''g2'' ''orders'' gen_after_query)) ''g1'' = Some users"
    "resolve_mem (snd (query_database_gen ''g2'' ''orders'' gen_after_query)) ''g2'' = Some orders"
    "data_handles (snd (query_database_gen ''g2'' ''orders'' gen_after_query)) ''g2'' \<noteq> Some 1"
    by (metis, metis, metis)
  have hp: "heap gen_after_query = [users, orders, users]" by (simp add: gen_after_query_def)
  from t1 g(2) have "load_inputs [(''df'', ''g1'')] Map.empty gen_after_query =
     (Inr [''df'' \<mapsto> PyDataFrame (length (heap gen_after_query))],
      gen_after_query\<lparr>heap := heap gen_after_query @ [heap gen_after_query ! 2]\<rparr>)"
    by blast
  then have li: "load_inputs [(''df'', ''g1'')] Map.empty gen_after_query =
     (Inr [''df'' \<mapsto> PyDataFrame 3], gen_after_query\<lparr>heap := [users, orders, users, users]\<rparr>)"
    by (simp add: hp numeral_3_eq_3 numeral_2_eq_2 del: load_inputs.simps)
  from t1 gen_after_query_valid mutate_input_confined fr g
  have e2: "resolve_mem (snd ?ex) ''g1'' = Some users" "seed_table (snd ?ex) ''users'' = Some users"
    by (metis, metis)
  from u1(1) f1 m2 u2 f3 b2 nr s2 r3 cols gen_after_query_valid g q li mutate_input_confined ex e2
  show ?thesis by simp
qed


subsection \<open>Handles are never unbound\<close>

lemma step_mem_writes:
  "data_handles (snd (step_mem u c m)) = data_handles m \<or>
   (\<exists>t a. data_handles (snd (step_mem u c m)) = (data_handles m)(t \<mapsto> a))"
  by (cases c)
     (auto simp: query_database_mem_def combine_columns_mem_def join_dataframes_mem_def Let_def
                 copy_object_def new_object_def
           split: option.splits sum.splits)

lemma query_gen_writes:
  "data_handles (snd (query_database_gen u n m)) = data_handles m \<or>
   (\<exists>t a. data_handles (snd (query_database_gen u n m)) = (data_handles m)(t \<mapsto> a))"
  by (auto simp: query_database_gen_def copy_object_def new_object_def split: option.splits)

lemma store_outputs_writes:
  "\<exists>ws. data_handles (snd (store_outputs uuid4 i outs lv out s)) =
          foldl (\<lambda>d (t, a). d(t \<mapsto> a)) (data_handles s) ws"
proof (induction outs arbitrary: i out s)
  case Nil
  show ?case by (rule exI [of _ "[]"]) simp
next
  case (Cons al outs)
  show ?case
  proof (cases "lv al")
    case None
    then show ?thesis by (intro exI [of _ "[]"]) simp
  next
    case (Some v)
    show ?thesis
    proof (cases v)
      case (PyOther ty)
      with Some show ?thesis by (intro exI [of _ "[]"]) simp
    next
      case (PyDataFrame d)
      let ?f = "\<lambda>(d :: string \<rightharpoonup> nat) (t, a). d(t \<mapsto> a)"
      let ?s = "s\<lparr>data_handles := (data_handles s)(uuid4 i \<mapsto> d)\<rparr>"
      from Cons.IH [of "Suc i" "out(al \<mapsto> uuid4 i)" ?s]
      obtain ws where w: "data_handles (snd (store_outputs uuid4 (Suc i) outs lv (out(al \<mapsto> uuid4 i)) ?s)) =
                            foldl ?f (data_handles ?s) ws"
        by blast
      have "data_handles (snd (store_outputs uuid4 i (al # outs) lv out s)) =
              data_handles (snd (store_outputs uuid4 (Suc i) outs lv (out(al \<mapsto> uuid4 i)) ?s))"
        using Some PyDataFrame by simp
      also have "\<dots> = foldl ?f (data_handles ?s) ws" by (rule w)
      also have "\<dots> = foldl ?f (data_handles s) ((uuid4 i, d) # ws)" by simp
      finally show ?thesis by blast
    qed
  qed
qed

lemma execute_writes:
  assumes "load_inputs ins Map.empty m = (Inr lv, m1)"
  shows "\<exists>ws. data_handles (snd (execute_pandas_code uuid4 code ins outs m)) =
          foldl (\<lambda>d (t, a). d(t \<mapsto> a)) (data_handles (snd (code lv m1))) ws"
proof -
  obtain res m2 where cd: "code lv m1 = (res, m2)" by (cases "code lv m1")
  show ?thesis
  proof (cases res)
    case (Inl x)
    with assms cd show ?thesis
      by (intro exI [of _ "[]"]) (simp add: execute_pandas_code_def)
  next
    case (Inr lv')
    with assms cd store_outputs_writes [of uuid4 0 outs lv' Map.empty m2]
    show ?thesis by (simp add: execute_pandas_code_def)
  qed
qed

lemma execute_writes_kept:
  assumes "keeps_store code"
  shows "\<exists>ws. data_handles (snd (execute_pandas_code uuid4 code ins outs m)) =
          foldl (\<lambda>d (t, a). d(t \<mapsto> a)) (data_handles m) ws"
proof -
  obtain r m1 where l: "load_inputs ins Map.empty m = (r, m1)" by (cases "load_inputs ins Map.empty m")
  from load_inputs_frame [of ins Map.empty m] l have dh: "data_handles m1 = data_handles m" by simp
  show ?thesis
  proof (cases r)
    case (Inl e)
    with l dh show ?thesis
      by (intro exI [of _ "[]"]) (simp add: execute_pandas_code_def)
  next
    case (Inr lv)
    from assms have "data_handles (snd (code lv m1)) = data_handles m1"
      by (simp add: keeps_store_def)
    with execute_writes [where code = code, OF l [unfolded Inr], of uuid4 outs] dh
    show ?thesis by simp
  qed
qed

lemma foldl_upd_keeps:
  "d k \<noteq> None \<Longrightarrow> foldl (\<lambda>d (t, a). d(t \<mapsto> a)) d ws k \<noteq> None"
  by (induction ws arbitrary: d) (auto split: prod.splits)

lemma resolve_mem_bound: "resolve_mem m k \<noteq> None \<longleftrightarrow> data_handles m k \<noteq> None"
  by (simp add: resolve_mem_def)

text \<open>
  Executed code that empties \<^verbatim>\<open>data_handles\<close> unbinds every handle: after
  \<^verbatim>\<open>execute_pandas_code\<close> has run it, the handle \<open>g1\<close> resolves to nothing.
\<close>

lemma clear_store_unbinds:
  "resolve_mem gen_after_query ''g1'' = Some users \<and>
   \<not> keeps_store clear_store \<and>
   fst (execute_pandas_code example_uuid4 clear_store [] [] gen_after_query) = Inr Map.empty \<and>
   resolve_mem (snd (execute_pandas_code example_uuid4 clear_store [] [] gen_after_query)) ''g1'' = None"
proof -
  have "data_handles (snd (clear_store Map.empty gen_after_query)) \<noteq> data_handles gen_after_query"
    by (auto simp: clear_store_def gen_after_query_def fun_eq_iff)
  then have "\<not> keeps_store clear_store"
    unfolding keeps_store_def by blast
  then show ?thesis
    by (simp add: execute_pandas_code_def clear_store_def resolve_mem_def gen_after_query_def)
qed

text \<open>
  Claim C9. On the persistent server a token that is bound stays bound, and resolves to
  some table, after any sequence of tool calls, whatever tokens are drawn in them; a
  single call leaves the handles table as it was or performs one insert-or-replace of one
  token. On the in-memory servers likewise: a handle that resolves to a table still does
  so after a call of a tool of \<^verbatim>\<open>mcp_handles/df_abstractions.py\<close> or of
  \<^verbatim>\<open>query_database\<close> of \<^verbatim>\<open>mcp_handles/pandas_generic.py\<close>, which leave
  \<^verbatim>\<open>data_handles\<close> as it was or assign to one key. \<^verbatim>\<open>execute_pandas_code\<close> itself
  performs a sequence of assignments, each to one key, on the dictionary that the executed
  code has left; when the executed code leaves the dictionaries of the module alone, a
  handle that resolves to a table still does so after the call. No tool removes a key.
\<close>

theorem handles_are_immortal:
  "(bound h s \<longrightarrow> bound h (run pd cs s) \<and> resolve h (run pd cs s) \<noteq> None) \<and>
   (handles_tbl (snd (step pd u c s)) = handles_tbl s \<or>
    (\<exists>t df. handles_tbl (snd (step pd u c s)) = insert_or_replace t (pickle_dumps df) (handles_tbl s))) \<and>
   (resolve_mem m k \<noteq> None \<longrightarrow>
      resolve_mem (snd (step_mem u mc m)) k \<noteq> None \<and>
      resolve_mem (snd (query_database_gen u n m)) k \<noteq> None) \<and>
   (data_handles (snd (step_mem u mc m)) = data_handles m \<or>
    (\<exists>t a. data_handles (snd (step_mem u mc m)) = (data_handles m)(t \<mapsto> a))) \<and>
   (data_handles (snd (query_database_gen u n m)) = data_handles m \<or>
    (\<exists>t a. data_handles (snd (query_database_gen u n m)) = (data_handles m)(t \<mapsto> a))) \<and>
   (load_inputs ins Map.empty m = (Inl e, m1) \<longrightarrow>
      data_handles (snd (execute_pandas_code uuid4 code ins outs m)) = data_handles m) \<and>
   (load_inputs ins Map.empty m = (Inr lv, m1) \<longrightarrow>
      (\<exists>ws. data_handles (snd (execute_pandas_code uuid4 code ins outs m)) =
          foldl (\<lambda>d (t, a). d(t \<mapsto> a)) (data_handles (snd (code lv m1))) ws)) \<and>
   (keeps_store code \<longrightarrow>
      (resolve_mem m k \<noteq> None \<longrightarrow>
         resolve_mem (snd (execute_pandas_code uuid4 code ins outs m)) k \<noteq> None) \<and>
      (\<exists>ws. data_handles (snd (execute_pandas_code uuid4 code ins outs m)) =
          foldl (\<lambda>d (t, a). d(t \<mapsto> a)) (data_handles m) ws))"
proof -
  have mem: "resolve_mem (snd (step_mem u mc m)) k \<noteq> None" if "resolve_mem m k \<noteq> None"
    using step_mem_writes [of u mc m] that unfolding resolve_mem_bound by auto
  have gen: "resolve_mem (snd (query_database_gen u n m)) k \<noteq> None" if "resolve_mem m k \<noteq> None"
    using query_gen_writes [of u n m] that unfolding resolve_mem_bound by auto
  have inl: "data_handles (snd (execute_pandas_code uuid4 code ins outs m)) = data_handles m"
    if "load_inputs ins Map.empty m = (Inl e, m1)"
    using execute_failed_before_outputs(1) [OF that refl, of uuid4 code outs] by simp
  have inr: "\<exists>ws. data_handles (snd (execute_pandas_code uuid4 code ins outs m)) =
          foldl (\<lambda>d (t, a). d(t \<mapsto> a)) (data_handles (snd (code lv m1))) ws"
    if "load_inputs ins Map.empty m = (Inr lv, m1)"
    using execute_writes [where code = code, OF that] by blast
  have exe: "resolve_mem (snd (execute_pandas_code uuid4 code ins outs m)) k \<noteq> None"
    if "keeps_store code" "resolve_mem m k \<noteq> None"
    using execute_writes_kept [OF that(1), of uuid4 ins outs m] that(2)
          foldl_upd_keeps [of "data_handles m" k]
    unfolding resolve_mem_bound by auto
  show ?thesis
    using run_bound_mono [of h s pd cs] step_tbl_cases [of pd u c s] mem gen inl inr exe
      step_mem_writes [of u mc m] query_gen_writes [of u n m]
      execute_writes_kept [of code uuid4 ins outs m]
    by (simp add: bound_resolve)
qed

theorem handles_are_immortal_witness:
  "bound ''h1'' example_server \<and>
   bound ''h1'' (run no_pandas [(''h2'', SelectColumns ''h1'' [''name'']),
                                (''h1'', QueryDatabase ''orders'')] example_server) \<and>
   resolve ''h1'' (run no_pandas [(''h2'', SelectColumns ''h1'' [''name'']),
                                  (''h1'', QueryDatabase ''orders'')] example_server) \<noteq> None \<and>
   resolve_mem gen_after_query ''g1'' \<noteq> None \<and>
   resolve_mem (snd (step_mem ''g1'' (QueryDatabaseM ''orders'') gen_after_query)) ''g1'' \<noteq> None \<and>
   resolve_mem (snd (query_database_gen ''g1'' ''orders'' gen_after_query)) ''g1'' \<noteq> None \<and>
   load_inputs [(''df'', ''nope'')] Map.empty gen_after_query =
     (Inl (InputHandleNotFound ''nope'' ''df''), gen_after_query) \<and>
   data_handles (snd (execute_pandas_code example_uuid4 mutate_input [(''df'', ''nope'')] [''result'']
                        gen_after_query)) = data_handles gen_after_query \<and>
   keeps_store mutate_input \<and>
   resolve_mem (snd (execute_pandas_code example_uuid4 mutate_input [(''df'', ''g1'')] [''result'']
                       gen_after_query)) ''g1'' \<noteq> None"
proof -
  have a: "bound ''h1'' example_server"
    by (simp add: bound_def example_server_def select_dataframe_def)
  have b: "resolve_mem gen_after_query ''g1'' \<noteq> None"
    by (simp add: resolve_mem_def gen_after_query_def)
  have l: "load_inputs [(''df'', ''nope'')] Map.empty gen_after_query =
     (Inl (InputHandleNotFound ''nope'' ''df''), gen_after_query)"
    by (simp add: gen_after_query_def)
  note t1 = handles_are_immortal [where h = "''h1''" and s = example_server and pd = no_pandas
       and cs = "[(''h2'', SelectColumns ''h1'' [''name'']), (''h1'', QueryDatabase ''orders'')]"
       and m = gen_after_query and k = "''g1''" and u = "''g1''" and mc = "QueryDatabaseM ''orders''"
       and n = "''orders''" and ?uuid4.0 = example_uuid4 and code = mutate_input
       and ins = "[(''df'', ''g1'')]" and outs = "[''result'']"]
  note t2 = handles_are_immortal [where m = gen_after_query and ?uuid4.0 = example_uuid4
       and code = mutate_input and ins = "[(''df'', ''nope'')]" and outs = "[''result'']"
       and e = "InputHandleNotFound ''nope'' ''df''" and ?m1.0 = gen_after_query]
  from t2 l have c: "data_handles (snd (execute_pandas_code example_uuid4 mutate_input
                        [(''df'', ''nope'')] [''result''] gen_after_query)) = data_handles gen_after_query"
    by blast
  from t1 a b example_codes_keep_store(3)
  have d: "bound ''h1'' (run no_pandas [(''h2'', SelectColumns ''h1'' [''name'']),
                                (''h1'', QueryDatabase ''orders'')] example_server)"
    "resolve ''h1'' (run no_pandas [(''h2'', SelectColumns ''h1'' [''name'']),
                                  (''h1'', QueryDatabase ''orders'')] example_server) \<noteq> None"
    "resolve_mem (snd (step_mem ''g1'' (QueryDatabaseM ''orders'') gen_after_query)) ''g1'' \<noteq> None"
    "resolve_mem (snd (query_database_gen ''g1'' ''orders'' gen_after_query)) ''g1'' \<noteq> None"
    "resolve_mem (snd (execute_pandas_code example_uuid4 mutate_input [(''df'', ''g1'')] [''result'']
                       gen_after_query)) ''g1'' \<noteq> None"
    by blast+
  from a b c d l example_codes_keep_store(3) show ?thesis
    by (simp del: load_inputs.simps run.simps step_mem.simps)
qed

end
